theory Spec2Isabelle
  imports Complex_Main
begin

section \<open>Python failures\<close>

text \<open>
  The script distinguishes two ways of leaving a block early: an exception that is a
  subclass of \<^verbatim>\<open>Exception\<close> (what \<^verbatim>\<open>except Exception\<close> catches) and
  \<^verbatim>\<open>SystemExit\<close>, raised by \<^verbatim>\<open>sys.exit\<close>, which derives from
  \<^verbatim>\<open>BaseException\<close> only and passes through \<^verbatim>\<open>except Exception\<close>.
  Calls into torch, kornia, numpy and packaging are modelled as raising exceptions of the
  first kind only; the string is \<^verbatim>\<open>str(e)\<close>.
\<close>

datatype exception = Exception string

datatype py_error = Raised exception | SystemExit int

fun bindE :: "'e + 'a \<Rightarrow> ('a \<Rightarrow> 'e + 'b) \<Rightarrow> 'e + 'b" where
  "bindE (Inl e) f = Inl e"
| "bindE (Inr v) f = f v"

section \<open>Tensors\<close>

text \<open>
  A tensor element is a finite number or one of the three non-finite IEEE values. A
  finite value is the real number it denotes; an arithmetic result is this real number
  rounded to the precision of the result's dtype (\<open>round_to\<close> below). The sign of zero
  is not modelled.
\<close>

datatype scalar = Fin real | PosInf | NegInf | NaN

datatype dtype = UInt8 | Int64 | Float16 | Float32 | Float64

record tensor =
  dtype :: dtype
  shape :: "nat list"
  elems :: "scalar list"

fun isfinite :: "scalar \<Rightarrow> bool" where
  "isfinite (Fin r) = True"
| "isfinite v = False"

text \<open>\<^verbatim>\<open>a > b\<close> on IEEE values: false whenever an operand is NaN.\<close>

fun sgt :: "scalar \<Rightarrow> scalar \<Rightarrow> bool" where
  "sgt NaN b = False"
| "sgt a NaN = False"
| "sgt a PosInf = False"
| "sgt PosInf b = True"
| "sgt NegInf b = False"
| "sgt (Fin a) NegInf = True"
| "sgt (Fin a) (Fin b) = (b < a)"

text \<open>The reduction step of \<^verbatim>\<open>Tensor.max()\<close>, which propagates NaN.\<close>

fun smax :: "scalar \<Rightarrow> scalar \<Rightarrow> scalar" where
  "smax NaN b = NaN"
| "smax a NaN = NaN"
| "smax a b = (if sgt b a then b else a)"

text \<open>
  Difference and quotient of two IEEE values before rounding: exact on finite operands, by
  the IEEE rules on the others. The tensor operations below round the result.
\<close>

fun ssub :: "scalar \<Rightarrow> scalar \<Rightarrow> scalar" where
  "ssub NaN b = NaN"
| "ssub a NaN = NaN"
| "ssub PosInf PosInf = NaN"
| "ssub PosInf b = PosInf"
| "ssub NegInf NegInf = NaN"
| "ssub NegInf b = NegInf"
| "ssub (Fin a) PosInf = NegInf"
| "ssub (Fin a) NegInf = PosInf"
| "ssub (Fin a) (Fin b) = Fin (a - b)"

fun sdiv :: "scalar \<Rightarrow> scalar \<Rightarrow> scalar" where
  "sdiv NaN b = NaN"
| "sdiv a NaN = NaN"
| "sdiv PosInf (Fin b) = (if b < 0 then NegInf else PosInf)"
| "sdiv NegInf (Fin b) = (if b < 0 then PosInf else NegInf)"
| "sdiv PosInf b = NaN"
| "sdiv NegInf b = NaN"
| "sdiv (Fin a) PosInf = Fin 0"
| "sdiv (Fin a) NegInf = Fin 0"
| "sdiv (Fin a) (Fin b) =
     (if b = 0 then (if a = 0 then NaN else if 0 < a then PosInf else NegInf)
      else Fin (a / b))"

subsection \<open>Rounding to a dtype\<close>

text \<open>\<open>\<lfloor>log\<^sub>2 n\<rfloor>\<close> for an integer \<open>n \<ge> 1\<close>, and for a positive real.\<close>

function ilog2_int :: "int \<Rightarrow> int" where
  "ilog2_int n = (if n < 2 then 0 else 1 + ilog2_int (n div 2))"
  by pat_completeness auto
termination
  by (relation "measure nat") auto

declare ilog2_int.simps [simp del]

definition ilog2 :: "real \<Rightarrow> int" where
  "ilog2 r = (if 1 \<le> r then ilog2_int \<lfloor>r\<rfloor>
              else if \<lceil>1 / r\<rceil> < 2 then 0 else - (1 + ilog2_int (\<lceil>1 / r\<rceil> - 1)))"

definition pow2 :: "int \<Rightarrow> real" where
  "pow2 e = (if 0 \<le> e then 2 ^ nat e else 1 / 2 ^ nat (- e))"

definition round_half_even :: "real \<Rightarrow> int" where
  "round_half_even t =
     (let f = \<lfloor>t\<rfloor>; d = t - of_int f
      in if d < 1 / 2 then f else if 1 / 2 < d then f + 1 else if even f then f else f + 1)"

text \<open>
  IEEE 754 round-to-nearest, ties to even, to a binary format with \<open>p\<close> significant
  bits and exponents from \<open>emin\<close> to \<open>emax\<close>: \<open>e\<close> is the exponent of the binade of
  \<open>\<bar>r\<bar>\<close> (of the subnormals below \<open>2 ^ emin\<close>), \<open>q\<close> the spacing of the format's values
  there, \<open>n\<close> the rounded significand. A rounded magnitude of \<open>2 ^ (emax + 1)\<close> or more
  is an infinity.
\<close>

definition round_float :: "nat \<Rightarrow> int \<Rightarrow> int \<Rightarrow> real \<Rightarrow> scalar" where
  "round_float p emin emax r =
     (if r = 0 then Fin 0
      else let a = \<bar>r\<bar>;
               e = max (ilog2 a) emin;
               q = pow2 (e - int p + 1);
               n = round_half_even (a / q)
           in if emax < e \<or> (e = emax \<and> n = 2 ^ p) then (if 0 < r then PosInf else NegInf)
              else Fin (if 0 < r then of_int n * q else - (of_int n * q)))"

text \<open>
  The value of dtype \<open>d\<close> for the real \<open>r\<close>: rounded for the floating dtypes; for the
  integral ones, which only ever receive integers here, wrapped around.
\<close>

fun round_to :: "dtype \<Rightarrow> real \<Rightarrow> scalar" where
  "round_to Float16 r = round_float 11 (- 14) 15 r"
| "round_to Float32 r = round_float 24 (- 126) 127 r"
| "round_to Float64 r = round_float 53 (- 1022) 1023 r"
| "round_to UInt8 r = Fin (of_int (\<lfloor>r\<rfloor> mod 256))"
| "round_to Int64 r = Fin (of_int ((\<lfloor>r\<rfloor> + 2 ^ 63) mod 2 ^ 64 - 2 ^ 63))"

declare round_to.simps [simp del]

fun sround :: "dtype \<Rightarrow> scalar \<Rightarrow> scalar" where
  "sround d (Fin r) = round_to d r"
| "sround d v = v"

text \<open>A Python float literal is the double nearest to its decimal.\<close>

definition py_float :: "real \<Rightarrow> scalar" where
  "py_float r = round_to Float64 r"

text \<open>The elements of a tensor as values of dtype \<open>d\<close>: untouched when it has that dtype.\<close>

definition cast_elems :: "dtype \<Rightarrow> tensor \<Rightarrow> scalar list" where
  "cast_elems d x = (if dtype x = d then elems x else map (sround d) (elems x))"

subsection \<open>Operations of torch on tensors\<close>

text \<open>\<^verbatim>\<open>x.float()\<close>: every element is rounded to float32, the shape is kept.\<close>

definition tensor_float :: "tensor \<Rightarrow> tensor" where
  "tensor_float x = x\<lparr>dtype := Float32, elems := cast_elems Float32 x\<rparr>"

text \<open>\<^verbatim>\<open>torch.isfinite(x).all()\<close>: true on a tensor without elements.\<close>

definition isfinite_all :: "tensor \<Rightarrow> bool" where
  "isfinite_all x = list_all isfinite (elems x)"

text \<open>\<^verbatim>\<open>x.max()\<close>: raises on a tensor without elements.\<close>

definition tensor_max :: "tensor \<Rightarrow> exception + scalar" where
  "tensor_max x =
     (case elems x of
        [] \<Rightarrow> Inl (Exception ''max(): Expected reduction dim to be specified for input.numel() == 0'')
      | v # vs \<Rightarrow> Inr (foldl smax v vs))"

definition is_floating :: "dtype \<Rightarrow> bool" where
  "is_floating d = (d = Float16 \<or> d = Float32 \<or> d = Float64)"

text \<open>
  \<^verbatim>\<open>x / c\<close> for a Python float \<open>c\<close>: the result has the dtype of a floating \<open>x\<close>
  and is float32 for an integral one; every quotient is rounded to that dtype.
\<close>

definition div_scalar :: "tensor \<Rightarrow> scalar \<Rightarrow> tensor" where
  "div_scalar x c =
     (let d = (if is_floating (dtype x) then dtype x else Float32)
      in x\<lparr>dtype := d, elems := map (\<lambda>v. sround d (sdiv v (sround d c))) (cast_elems d x)\<rparr>)"

subsection \<open>Broadcasting arithmetic\<close>

fun dtype_rank :: "dtype \<Rightarrow> nat" where
  "dtype_rank UInt8 = 0"
| "dtype_rank Int64 = 1"
| "dtype_rank Float16 = 2"
| "dtype_rank Float32 = 3"
| "dtype_rank Float64 = 4"

definition promote_types :: "dtype \<Rightarrow> dtype \<Rightarrow> dtype" where
  "promote_types a b = (if dtype_rank a < dtype_rank b then b else a)"

text \<open>
  \<^verbatim>\<open>torch.result_type\<close> of two tensors: a zero-dimensional operand decides the type
  only when its category (floating over integral) is higher than the other operand's.
\<close>

definition result_type :: "tensor \<Rightarrow> tensor \<Rightarrow> dtype" where
  "result_type a b =
     (if (shape a = []) = (shape b = []) then promote_types (dtype a) (dtype b)
      else if shape a = [] then
        (if is_floating (dtype a) \<and> \<not> is_floating (dtype b) then dtype a else dtype b)
      else
        (if is_floating (dtype b) \<and> \<not> is_floating (dtype a) then dtype b else dtype a))"

definition pad_shape :: "nat \<Rightarrow> nat list \<Rightarrow> nat list" where
  "pad_shape n s = replicate (n - length s) 1 @ s"

fun broadcast_dims :: "nat list \<Rightarrow> nat list \<Rightarrow> nat list option" where
  "broadcast_dims [] [] = Some []"
| "broadcast_dims (d # ds) (e # es) =
     (if d = e \<or> d = 1 \<or> e = 1
      then map_option ((#) (if d = 1 then e else d)) (broadcast_dims ds es)
      else None)"
| "broadcast_dims ds es = None"

definition chunk :: "nat \<Rightarrow> 'a list \<Rightarrow> nat \<Rightarrow> 'a list" where
  "chunk n xs i = take n (drop (i * n) xs)"

text \<open>
  Elementwise operation on two row-major element lists whose shapes have the same rank
  and are broadcastable: a dimension of size 1 is repeated along the other operand's.
\<close>

fun bcast :: "(scalar \<Rightarrow> scalar \<Rightarrow> scalar) \<Rightarrow> nat list \<Rightarrow> scalar list \<Rightarrow>
    nat list \<Rightarrow> scalar list \<Rightarrow> scalar list" where
  "bcast f (d # ds) xs (e # es) ys =
     concat (map (\<lambda>i. bcast f ds (chunk (prod_list ds) xs (if d = 1 then 0 else i))
                              es (chunk (prod_list es) ys (if e = 1 then 0 else i)))
                 [0 ..< (if d = 1 then e else d)])"
| "bcast f ds xs es ys = (case (xs, ys) of (x # _, y # _) \<Rightarrow> [f x y] | _ \<Rightarrow> [])"

definition tensor_binop :: "(scalar \<Rightarrow> scalar \<Rightarrow> scalar) \<Rightarrow> dtype \<Rightarrow> tensor \<Rightarrow> tensor \<Rightarrow>
    exception + tensor" where
  "tensor_binop f dt a b =
     (let n = max (length (shape a)) (length (shape b));
          sa = pad_shape n (shape a);
          sb = pad_shape n (shape b)
      in case broadcast_dims sa sb of
           None \<Rightarrow> Inl (Exception ''The size of tensor a must match the size of tensor b'')
         | Some s \<Rightarrow>
             Inr \<lparr>dtype = dt, shape = s,
                  elems = bcast (\<lambda>u v. sround dt (f u v)) sa (cast_elems dt a) sb (cast_elems dt b)\<rparr>)"

text \<open>
  \<^verbatim>\<open>a - b\<close> and \<^verbatim>\<open>a / b\<close> on tensors: the operands are taken to the result's
  dtype and each result is rounded to it.
\<close>

definition tensor_sub :: "tensor \<Rightarrow> tensor \<Rightarrow> exception + tensor" where
  "tensor_sub a b = tensor_binop ssub (result_type a b) a b"

definition tensor_div :: "tensor \<Rightarrow> tensor \<Rightarrow> exception + tensor" where
  "tensor_div a b =
     tensor_binop sdiv
       (if is_floating (result_type a b) then result_type a b else Float32) a b"

text \<open>\<^verbatim>\<open>y.dim()\<close> and \<^verbatim>\<open>y.unsqueeze(d)\<close> for \<open>d \<ge> 0\<close>.\<close>

definition tensor_dim :: "tensor \<Rightarrow> nat" where
  "tensor_dim y = length (shape y)"

definition unsqueeze :: "nat \<Rightarrow> tensor \<Rightarrow> exception + tensor" where
  "unsqueeze d y =
     (if d \<le> length (shape y)
      then Inr (y\<lparr>shape := take d (shape y) @ 1 # drop d (shape y)\<rparr>)
      else Inl (Exception ''Dimension out of range''))"

section \<open>The preprocessing wrapper\<close>

text \<open>
  \<^verbatim>\<open>class DepthKornia\<close>: the wrapped network, the target resolution and the two
  registered buffers. The network is a value of an arbitrary type \<open>'n\<close>.
\<close>

record 'n depth_kornia =
  net :: 'n
  in_h :: int
  in_w :: int
  mean :: tensor
  std :: tensor
  training :: bool

datatype interpolation = Nearest | Bilinear | Bicubic | Area

text \<open>A value returned by \<^verbatim>\<open>torch.load\<close>: a tensor, a dictionary, or anything else.\<close>

datatype pyobj = PyTensor tensor | PyDict "(string \<times> pyobj) list" | PyOther string

text \<open>
  The operations of torch, kornia and the model hub that the script calls and that are
  not defined in it. Each is a parameter of the model; \<open>'g\<close> is the type of traced
  graphs. \<open>load_state_dict\<close> changes the network in place and may raise after it did.
\<close>

record ('n, 'g) torch_api =
  kornia_resize :: "tensor \<Rightarrow> int \<times> int \<Rightarrow> interpolation \<Rightarrow> bool \<Rightarrow> exception + tensor"
  net_call :: "'n \<Rightarrow> tensor \<Rightarrow> exception + tensor"
  net_eval :: "'n \<Rightarrow> 'n"
  hub_load :: "string \<Rightarrow> string \<Rightarrow> bool \<Rightarrow> bool \<Rightarrow> exception + 'n"
  torch_load :: "string \<Rightarrow> string \<Rightarrow> exception + pyobj"
  load_state_dict :: "'n \<Rightarrow> pyobj \<Rightarrow> bool \<Rightarrow> exception option \<times> 'n"
  randn :: "int list \<Rightarrow> exception + tensor"
  jit_trace :: "'n depth_kornia \<Rightarrow> tensor \<Rightarrow> bool \<Rightarrow> bool \<Rightarrow> exception + 'g"
  import_optimize_for_mobile :: "exception + ('g \<Rightarrow> exception + 'g)"
  save_for_lite_interpreter :: "'g \<Rightarrow> string \<Rightarrow> exception option"

text \<open>
  \<^verbatim>\<open>torch.tensor\<close> of a list of Python floats, a float32 vector, and \<^verbatim>\<open>view\<close>
  on a tensor with as many elements as the new shape has.
\<close>

definition torch_tensor :: "scalar list \<Rightarrow> tensor" where
  "torch_tensor vs = \<lparr>dtype = Float32, shape = [length vs], elems = map (sround Float32) vs\<rparr>"

definition tensor_view :: "nat list \<Rightarrow> tensor \<Rightarrow> tensor" where
  "tensor_view s t = t\<lparr>shape := s\<rparr>"

text \<open>\<^verbatim>\<open>DepthKornia.__init__\<close> (lines 52-59) and \<^verbatim>\<open>nn.Module.eval\<close> on the wrapper.\<close>

definition DepthKornia_init :: "('n, 'g) torch_api \<Rightarrow> 'n \<Rightarrow> int \<Rightarrow> int \<Rightarrow> 'n depth_kornia" where
  "DepthKornia_init api n h w =
     \<lparr>net = net_eval api n, in_h = h, in_w = w,
      mean = tensor_view [1, 3, 1, 1]
               (torch_tensor [py_float (485 / 1000), py_float (456 / 1000), py_float (406 / 1000)]),
      std = tensor_view [1, 3, 1, 1]
              (torch_tensor [py_float (229 / 1000), py_float (224 / 1000), py_float (225 / 1000)]),
      training = True\<rparr>"

definition DepthKornia_eval :: "('n, 'g) torch_api \<Rightarrow> 'n depth_kornia \<Rightarrow> 'n depth_kornia" where
  "DepthKornia_eval api m = m\<lparr>net := net_eval api (net m), training := False\<rparr>"

text \<open>Lines 64-65: \<^verbatim>\<open>if x.dtype != torch.float32: x = x.float()\<close>.\<close>

definition as_float32 :: "tensor \<Rightarrow> tensor" where
  "as_float32 x = (if dtype x \<noteq> Float32 then tensor_float x else x)"

text \<open>\<^verbatim>\<open>DepthKornia.forward\<close> (lines 62-75), statement by statement.\<close>

definition forward :: "('n, 'g) torch_api \<Rightarrow> 'n depth_kornia \<Rightarrow> tensor \<Rightarrow> exception + tensor" where
  "forward api m x =
     (let x1 = as_float32 x
      in bindE (if isfinite_all x1
                then bindE (tensor_max x1)
                       (\<lambda>mx. Inr (if sgt mx (Fin 1) then div_scalar x1 (Fin 255) else x1))
                else Inr x1)
          (\<lambda>x2. bindE (kornia_resize api x2 (in_h m, in_w m) Bilinear False)
          (\<lambda>x3. bindE (bindE (tensor_sub x3 (mean m)) (\<lambda>d. tensor_div d (std m)))
          (\<lambda>x4. bindE (net_call api (net m) x4)
          (\<lambda>y. if tensor_dim y = 3 then unsqueeze 1 y else Inr y)))))"

subsection \<open>The five steps of the wrapper\<close>

text \<open>Lines 64-67: the dtype conversion and the range check.\<close>

definition normalize_dtype_and_range :: "tensor \<Rightarrow> exception + tensor" where
  "normalize_dtype_and_range x =
     (let x1 = as_float32 x
      in if isfinite_all x1
         then bindE (tensor_max x1)
                (\<lambda>mx. Inr (if sgt mx (Fin 1) then div_scalar x1 (Fin 255) else x1))
         else Inr x1)"

text \<open>Lines 68-70: bilinear resize to the target resolution, corners not aligned.\<close>

definition resize :: "('n, 'g) torch_api \<Rightarrow> tensor \<Rightarrow> int \<Rightarrow> int \<Rightarrow> exception + tensor" where
  "resize api x target_h target_w = kornia_resize api x (target_h, target_w) Bilinear False"

text \<open>Line 71: \<^verbatim>\<open>(x - self.mean) / self.std\<close>.\<close>

definition standardize :: "'n depth_kornia \<Rightarrow> tensor \<Rightarrow> exception + tensor" where
  "standardize m x = bindE (tensor_sub x (mean m)) (\<lambda>d. tensor_div d (std m))"

text \<open>Line 72: the call of the wrapped network.\<close>

definition infer :: "('n, 'g) torch_api \<Rightarrow> 'n depth_kornia \<Rightarrow> tensor \<Rightarrow> exception + tensor" where
  "infer api m x = net_call api (net m) x"

text \<open>Lines 73-74: a rank-3 output gets a channel dimension at position 1.\<close>

definition normalize_output_rank :: "tensor \<Rightarrow> exception + tensor" where
  "normalize_output_rank y = (if tensor_dim y = 3 then unsqueeze 1 y else Inr y)"

text \<open>The contract of the wrapped network: its output is \<open>(1, 1, h, w)\<close> or \<open>(1, h, w)\<close>.\<close>

definition depth_shape :: "nat list \<Rightarrow> bool" where
  "depth_shape s = (case s of [b, h, w] \<Rightarrow> b = 1 | [b, c, h, w] \<Rightarrow> b = 1 \<and> c = 1 | _ \<Rightarrow> False)"

section \<open>The export pipeline\<close>

text \<open>What the process leaves behind: the two output streams and the files it wrote.\<close>

record 'g world =
  stdout :: "string list"
  stderr :: "string list"
  files :: "(string \<times> 'g) list"

definition print_err :: "string \<Rightarrow> 'g world \<Rightarrow> 'g world" where
  "print_err s w = w\<lparr>stderr := stderr w @ [s]\<rparr>"

definition print_out :: "string \<Rightarrow> 'g world \<Rightarrow> 'g world" where
  "print_out s w = w\<lparr>stdout := stdout w @ [s]\<rparr>"

text \<open>The exit status of the process: an uncaught exception ends it with status 1.\<close>

fun exit_status :: "py_error + 'a \<Rightarrow> int" where
  "exit_status (Inr v) = 0"
| "exit_status (Inl (SystemExit n)) = n"
| "exit_status (Inl (Raised e)) = 1"

fun str_of_exception :: "exception \<Rightarrow> string" where
  "str_of_exception (Exception s) = s"

text \<open>A library call that raises, seen from the script.\<close>

fun raising :: "exception + 'a \<Rightarrow> py_error + 'a" where
  "raising (Inl e) = Inl (Raised e)"
| "raising (Inr v) = Inr v"

text \<open>\<^verbatim>\<open>try: body except Exception: handler\<close>, without and with output.\<close>

fun try_except :: "py_error + 'a \<Rightarrow> (exception \<Rightarrow> py_error + 'a) \<Rightarrow> py_error + 'a" where
  "try_except (Inl (Raised e)) handler = handler e"
| "try_except r handler = r"

definition try_except_w :: "('w \<Rightarrow> (py_error + 'a) \<times> 'w) \<Rightarrow>
    (exception \<Rightarrow> 'w \<Rightarrow> (py_error + 'a) \<times> 'w) \<Rightarrow> 'w \<Rightarrow> (py_error + 'a) \<times> 'w" where
  "try_except_w body handler w =
     (case body w of
        (Inl (Raised e), w') \<Rightarrow> handler e w'
      | r \<Rightarrow> r)"

subsection \<open>Model keys\<close>

definition MODEL_KEY_MAP :: "(string \<times> string) list" where
  "MODEL_KEY_MAP =
     [(''midas_small'', ''MiDaS_small''),
      (''dpt_swin2_tiny_256'', ''DPT_Swin2_Tiny_256''),
      (''dpt_levit_224'', ''DPT_LeViT_224''),
      (''midas_v21_small_256'', ''MiDaS_small'')]"

text \<open>
  \<^verbatim>\<open>str.lower\<close> on the ASCII letters. A string is its UTF-8 bytes; the bytes of a
  character outside ASCII are left alone, where Python may map the character to another
  one. No key of the table has a letter that Python reaches from a character outside
  ASCII, so the lookup below finds a key exactly when Python's does.
\<close>

definition lower_char :: "char \<Rightarrow> char" where
  "lower_char c =
     (case map_of (zip ''ABCDEFGHIJKLMNOPQRSTUVWXYZ'' ''abcdefghijklmnopqrstuvwxyz'') c of
        Some l \<Rightarrow> l
      | None \<Rightarrow> c)"

definition str_lower :: "string \<Rightarrow> string" where
  "str_lower s = map lower_char s"

text \<open>\<^verbatim>\<open>repr\<close> of a list of strings that need no escaping, as the keys are.\<close>

fun join :: "string \<Rightarrow> string list \<Rightarrow> string" where
  "join sep [] = []"
| "join sep [s] = s"
| "join sep (s # ss) = s @ sep @ join sep ss"

definition repr_str :: "string \<Rightarrow> string" where
  "repr_str s = CHR 0x27 # s @ [CHR 0x27]"

definition repr_list :: "string list \<Rightarrow> string" where
  "repr_list ss = ''['' @ join '', '' (map repr_str ss) @ '']''"

subsection \<open>\<^verbatim>\<open>load_midas_model\<close>\<close>

text \<open>Lines 79-82: the lookup of the key and the exit on an unknown one.\<close>

definition resolve_architecture :: "string \<Rightarrow> 'g world \<Rightarrow> (py_error + string) \<times> 'g world" where
  "resolve_architecture model_key w =
     (case map_of MODEL_KEY_MAP (str_lower model_key) of
        None \<Rightarrow>
          (Inl (SystemExit 2),
           print_err (''Unknown --model '' @ model_key @ ''. Choices: ''
                      @ repr_list (map fst MODEL_KEY_MAP)) w)
      | Some hub_key \<Rightarrow> (Inr hub_key, w))"

text \<open>\<^verbatim>\<open>isinstance(sd, dict) and "state_dict" in sd\<close>, then \<^verbatim>\<open>sd["state_dict"]\<close>.\<close>

fun unwrap_state_dict :: "pyobj \<Rightarrow> pyobj" where
  "unwrap_state_dict (PyDict kvs) =
     (case map_of kvs ''state_dict'' of Some inner \<Rightarrow> inner | None \<Rightarrow> PyDict kvs)"
| "unwrap_state_dict sd = sd"

text \<open>\<^verbatim>\<open>if weights:\<close> is false for \<^verbatim>\<open>None\<close> and for the empty string.\<close>

fun truthy :: "string option \<Rightarrow> bool" where
  "truthy None = False"
| "truthy (Some s) = (s \<noteq> [])"

text \<open>
  Lines 83-94: the network is fetched from the hub; the weights file, when given, is
  read outside the \<^verbatim>\<open>try\<close> and applied inside it.
\<close>

definition acquire_network :: "('n, 'g) torch_api \<Rightarrow> string \<Rightarrow> string option \<Rightarrow> 'g world \<Rightarrow>
    (py_error + 'n) \<times> 'g world" where
  "acquire_network api hub_key weights w =
     (case hub_load api ''intel-isl/MiDaS'' hub_key True False of
        Inl e \<Rightarrow> (Inl (Raised e), w)
      | Inr n \<Rightarrow>
          if truthy weights then
            (case torch_load api (the weights) ''cpu'' of
               Inl e \<Rightarrow> (Inl (Raised e), w)
             | Inr sd \<Rightarrow>
                 (case load_state_dict api n (unwrap_state_dict sd) False of
                    (None, n') \<Rightarrow> (Inr (net_eval api n'), w)
                  | (Some e, n') \<Rightarrow>
                      (Inr (net_eval api n'),
                       print_err (''Warning: load_state_dict(strict=False) failed: ''
                                  @ str_of_exception e) w)))
          else (Inr (net_eval api n), w))"

definition load_midas_model :: "('n, 'g) torch_api \<Rightarrow> string \<Rightarrow> string option \<Rightarrow> 'g world \<Rightarrow>
    (py_error + 'n) \<times> 'g world" where
  "load_midas_model api model_key weights w =
     (case resolve_architecture model_key w of
        (Inl e, w') \<Rightarrow> (Inl e, w')
      | (Inr hub_key, w') \<Rightarrow> acquire_network api hub_key weights w')"

subsection \<open>\<^verbatim>\<open>export\<close>\<close>

text \<open>Lines 106-110: the optimizer is imported and applied inside one \<^verbatim>\<open>try\<close>.\<close>

definition optimize_stage :: "('n, 'g) torch_api \<Rightarrow> 'g \<Rightarrow> py_error + 'g" where
  "optimize_stage api ts =
     try_except
       (bindE (raising (import_optimize_for_mobile api))
          (\<lambda>optimize_for_mobile. raising (optimize_for_mobile ts)))
       (\<lambda>e. Inr ts)"

text \<open>Lines 112-113: the graph is written and the path reported.\<close>

definition serialize :: "('n, 'g) torch_api \<Rightarrow> 'g \<Rightarrow> string \<Rightarrow> 'g world \<Rightarrow>
    (py_error + unit) \<times> 'g world" where
  "serialize api ts out_path w =
     (case save_for_lite_interpreter api ts out_path of
        Some e \<Rightarrow> (Inl (Raised e), w)
      | None \<Rightarrow> (Inr (), print_out (''Wrote '' @ out_path) (w\<lparr>files := files w @ [(out_path, ts)]\<rparr>)))"

definition export :: "('n, 'g) torch_api \<Rightarrow> string \<Rightarrow> string option \<Rightarrow> int \<Rightarrow> string \<Rightarrow>
    'g world \<Rightarrow> (py_error + unit) \<times> 'g world" where
  "export api model_name weights_path sz out_path w =
     (case load_midas_model api model_name weights_path w of
        (Inl e, w1) \<Rightarrow> (Inl e, w1)
      | (Inr base, w1) \<Rightarrow>
          (let model = DepthKornia_eval api (DepthKornia_init api base sz sz)
           in case randn api [1, 3, sz, sz] of
                Inl e \<Rightarrow> (Inl (Raised e), w1)
              | Inr example \<Rightarrow>
                  (case jit_trace api model example False False of
                     Inl e \<Rightarrow> (Inl (Raised e), w1)
                   | Inr ts \<Rightarrow>
                       (case optimize_stage api ts of
                          Inl e \<Rightarrow> (Inl e, w1)
                        | Inr ts' \<Rightarrow> serialize api ts' out_path w1))))"

subsection \<open>Start of the script\<close>

text \<open>
  What the imports at the top of the script find: numpy's version string, the
  \<^verbatim>\<open>Version\<close> class of packaging with its order, and kornia.
\<close>

record 'v modules =
  import_numpy :: "exception + string"
  import_Version :: "exception + (string \<Rightarrow> exception + 'v)"
  version_ge :: "'v \<Rightarrow> 'v \<Rightarrow> bool"
  import_kornia :: "exception option"

text \<open>Lines 25-32.\<close>

definition numpy_guard :: "'v modules \<Rightarrow> 'g world \<Rightarrow> (py_error + unit) \<times> 'g world" where
  "numpy_guard env w =
     try_except_w
       (\<lambda>w. case import_numpy env of
               Inl e \<Rightarrow> (Inl (Raised e), w)
             | Inr np_version \<Rightarrow>
                 (case import_Version env of
                    Inl e \<Rightarrow> (Inl (Raised e), w)
                  | Inr Version \<Rightarrow>
                      (case Version np_version of
                         Inl e \<Rightarrow> (Inl (Raised e), w)
                       | Inr a \<Rightarrow>
                           (case Version ''2.0.0'' of
                              Inl e \<Rightarrow> (Inl (Raised e), w)
                            | Inr b \<Rightarrow>
                                if version_ge env a b
                                then (Inl (SystemExit 1),
                                      print_err (''ERROR: numpy>=2 detected. Install numpy<2 ''
                                        @ ''(e.g., uv pip install '' @ repr_str ''numpy<2'' @ '').'') w)
                                else (Inr (), w)))))
       (\<lambda>e w. (Inr (), w)) w"

text \<open>Lines 34-38: the exception of the import is raised again after the message.\<close>

definition kornia_guard :: "'v modules \<Rightarrow> 'g world \<Rightarrow> (py_error + unit) \<times> 'g world" where
  "kornia_guard env w =
     (case import_kornia env of
        Some e \<Rightarrow> (Inl (Raised e), print_err ''Kornia is required. Install with: uv pip install kornia'' w)
      | None \<Rightarrow> (Inr (), w))"

text \<open>The script from its first guard to the end of \<^verbatim>\<open>export\<close>, on parsed arguments.\<close>

definition script :: "'v modules \<Rightarrow> ('n, 'g) torch_api \<Rightarrow> string \<Rightarrow> string option \<Rightarrow> int \<Rightarrow>
    string \<Rightarrow> 'g world \<Rightarrow> (py_error + unit) \<times> 'g world" where
  "script env api model_name weights_path sz out_path w =
     (case numpy_guard env w of
        (Inl e, w1) \<Rightarrow> (Inl e, w1)
      | (Inr u, w1) \<Rightarrow>
          (case kornia_guard env w1 of
             (Inl e, w2) \<Rightarrow> (Inl e, w2)
           | (Inr u, w2) \<Rightarrow> export api model_name weights_path sz out_path w2))"

section \<open>A concrete instance\<close>

text \<open>
  A small instance of every parameter, on which the definitions can be run: a network
  is its named parameters and answers with the first channel of its input, the resize
  accepts an input that has the target size already, a graph is a list of pass names.
\<close>

type_synonym demo_net = "(string \<times> tensor) list"

definition demo_resize :: "tensor \<Rightarrow> int \<times> int \<Rightarrow> interpolation \<Rightarrow> bool \<Rightarrow> exception + tensor" where
  "demo_resize x hw interp align_corners =
     (case shape x of
        [b, c, h, w] \<Rightarrow> if (int h, int w) = hw then Inr x
                        else Inl (Exception ''resize: unsupported size'')
      | _ \<Rightarrow> Inl (Exception ''resize: expected a 4D input''))"

definition demo_net_call :: "demo_net \<Rightarrow> tensor \<Rightarrow> exception + tensor" where
  "demo_net_call n t =
     (case shape t of
        [b, c, h, w] \<Rightarrow> Inr \<lparr>dtype = dtype t, shape = [1, h, w], elems = take (h * w) (elems t)\<rparr>
      | _ \<Rightarrow> Inl (Exception ''net: expected a 4D input''))"

definition demo_weight :: "real \<Rightarrow> tensor" where
  "demo_weight r = \<lparr>dtype = Float32, shape = [1], elems = [Fin r]\<rparr>"

definition demo_hub_load :: "string \<Rightarrow> string \<Rightarrow> bool \<Rightarrow> bool \<Rightarrow> exception + demo_net" where
  "demo_hub_load repo hub_key trust_repo pretrained =
     (if hub_key \<in> set (map snd MODEL_KEY_MAP) then Inr [(''conv.weight'', demo_weight 0)]
      else Inl (Exception ''Cannot find callable in hubconf''))"

definition demo_state :: "(string \<times> pyobj) list" where
  "demo_state = [(''conv.weight'', PyTensor (demo_weight 7))]"

definition odd_state :: "(string \<times> pyobj) list" where
  "odd_state = [(''state_dict'', PyTensor (demo_weight 1)), (''conv.weight'', PyTensor (demo_weight 7))]"

definition demo_torch_load :: "string \<Rightarrow> string \<Rightarrow> exception + pyobj" where
  "demo_torch_load path map_location =
     (if path = ''direct.pt'' then Inr (PyDict demo_state)
      else if path = ''wrapped.pt'' then Inr (PyDict [(''epoch'', PyOther ''3''), (''state_dict'', PyDict demo_state)])
      else if path = ''odd_direct.pt'' then Inr (PyDict odd_state)
      else if path = ''odd_wrapped.pt'' then Inr (PyDict [(''state_dict'', PyDict odd_state)])
      else if path = ''renamed.pt'' then Inr (PyDict [(''module.conv.weight'', PyTensor (demo_weight 7))])
      else if path = ''module.pt'' then Inr (PyOther ''MidasNet'')
      else Inl (Exception ''No such file or directory''))"

definition demo_load_state_dict :: "demo_net \<Rightarrow> pyobj \<Rightarrow> bool \<Rightarrow> exception option \<times> demo_net" where
  "demo_load_state_dict n sd strict =
     (case sd of
        PyDict kvs \<Rightarrow>
          (None, map (\<lambda>(k, t). case map_of kvs k of Some (PyTensor t') \<Rightarrow> (k, t') | _ \<Rightarrow> (k, t)) n)
      | _ \<Rightarrow> (Some (Exception ''Expected state_dict to be dict-like''), n))"

definition demo_randn :: "int list \<Rightarrow> exception + tensor" where
  "demo_randn dims =
     (if list_all (\<lambda>d. 0 \<le> d) dims
      then Inr \<lparr>dtype = Float32, shape = map nat dims,
                elems = replicate (prod_list (map nat dims)) (Fin (1 / 2))\<rparr>
      else Inl (Exception ''Trying to create tensor with negative dimension''))"

definition demo_api :: "(demo_net, string list) torch_api" where
  "demo_api =
     \<lparr>kornia_resize = demo_resize,
      net_call = demo_net_call,
      net_eval = (\<lambda>n. n),
      hub_load = demo_hub_load,
      torch_load = demo_torch_load,
      load_state_dict = demo_load_state_dict,
      randn = demo_randn,
      jit_trace = (\<lambda>model example strict check_trace. Inr [''forward'']),
      import_optimize_for_mobile = Inr (\<lambda>g. Inr (g @ [''optimize_for_mobile''])),
      save_for_lite_interpreter = (\<lambda>g path. None)\<rparr>"

definition demo_api_no_optimizer :: "(demo_net, string list) torch_api" where
  "demo_api_no_optimizer =
     demo_api\<lparr>import_optimize_for_mobile := Inl (Exception ''No module named torch.utils.mobile_optimizer'')\<rparr>"

definition demo_model :: "demo_net depth_kornia" where
  "demo_model = DepthKornia_init demo_api [(''conv.weight'', demo_weight 0)] 1 2"

definition demo_image :: "real list \<Rightarrow> tensor" where
  "demo_image rs = \<lparr>dtype = Float32, shape = [1, 3, 1, 2], elems = map Fin rs\<rparr>"

definition world0 :: "(string list) world" where
  "world0 = \<lparr>stdout = [], stderr = [], files = []\<rparr>"

fun ver_ge :: "nat list \<Rightarrow> nat list \<Rightarrow> bool" where
  "ver_ge [] bs = list_all (\<lambda>b. b = 0) bs"
| "ver_ge (a # as) [] = True"
| "ver_ge (a # as) (b # bs) = (b < a \<or> (a = b \<and> ver_ge as bs))"

text \<open>
  An installation whose numpy has the version string \<open>np_version\<close>, on which
  \<^verbatim>\<open>Version\<close> gives \<open>parsed\<close>: a release as its list of numbers, or the exception
  for a string that is no version. \<^verbatim>\<open>Version\<close> is only called on that string and
  on \<^verbatim>\<open>"2.0.0"\<close>.
\<close>

definition demo_modules :: "string \<Rightarrow> exception + nat list \<Rightarrow> (nat list) modules" where
  "demo_modules np_version parsed =
     \<lparr>import_numpy = Inr np_version,
      import_Version = Inr (\<lambda>s. if s = ''2.0.0'' then Inr [2, 0, 0] else parsed),
      version_ge = ver_ge, import_kornia = None\<rparr>"

section \<open>Properties of the wrapper\<close>

lemma dtype_as_float32: "dtype (as_float32 x) = Float32"
  by (simp add: as_float32_def tensor_float_def)

lemma as_float32_id: "dtype x = Float32 \<Longrightarrow> as_float32 x = x"
  by (simp add: as_float32_def)

lemma sround_nonfinite: "\<not> isfinite v \<Longrightarrow> sround d v = v"
  by (cases v) simp_all

text \<open>The conversion to float32 keeps NaN and the infinities.\<close>

lemma as_float32_keeps_nonfinite:
  assumes "v \<in> set (elems x)" "\<not> isfinite v"
  shows "v \<in> set (elems (as_float32 x))"
proof -
  have "sround Float32 v = v" using assms(2) by (rule sround_nonfinite)
  then have "v \<in> sround Float32 ` set (elems x)" using assms(1) by force
  then show ?thesis using assms(1)
    by (simp add: as_float32_def tensor_float_def cast_elems_def)
qed

lemma smax_Fin: "smax (Fin r) (Fin a) = Fin (max r a)"
  by (simp add: max_def)

lemma foldl_smax_Fin: "foldl smax (Fin r) (map Fin rs) = Fin (Max (insert r (set rs)))"
proof (induction rs arbitrary: r)
  case Nil
  then show ?case by simp
next
  case (Cons a rs)
  have "foldl smax (Fin r) (map Fin (a # rs)) = foldl smax (Fin (max r a)) (map Fin rs)"
    by (simp only: list.map foldl_Cons smax_Fin)
  also have "\<dots> = Fin (Max (insert (max r a) (set rs)))"
    by (rule Cons.IH)
  also have "Max (insert (max r a) (set rs)) = Max (insert r (set (a # rs)))"
  proof (cases "set rs = {}")
    case True
    then show ?thesis by simp
  next
    case False
    then show ?thesis by (simp add: max.assoc)
  qed
  finally show ?case .
qed

lemma tensor_max_Fin:
  assumes "elems x = map Fin rs" "rs \<noteq> []"
  shows "tensor_max x = Inr (Fin (Max (set rs)))"
proof -
  obtain r rs' where rs: "rs = r # rs'" using assms(2) by (cases rs) auto
  show ?thesis using assms(1) by (simp add: tensor_max_def rs foldl_smax_Fin)
qed

lemma isfinite_all_Fin: "elems x = map Fin rs \<Longrightarrow> isfinite_all x"
  by (simp add: isfinite_all_def list_all_iff)

lemma round_f32_255: "round_to Float32 255 = Fin 255"
  by code_simp

text \<open>Line 67 on a float32 tensor of finite values: the float32 quotients by 255.\<close>

lemma div_scalar_Fin:
  assumes "elems x = map Fin rs" "dtype x = Float32"
  shows "div_scalar x (Fin 255) = x\<lparr>elems := map (\<lambda>r. round_to Float32 (r / 255)) rs\<rparr>"
  using assms
  by (simp add: div_scalar_def is_floating_def cast_elems_def round_f32_255 comp_def Let_def)

lemma as_float32_demo_image: "as_float32 (demo_image rs) = demo_image rs"
  by (simp add: as_float32_def demo_image_def)

subsection \<open>Broadcasting against the channel constants\<close>

lemma concat_chunks: "length xs = d * n \<Longrightarrow> concat (map (chunk n xs) [0 ..< d]) = xs"
proof (induction d arbitrary: xs)
  case 0
  then show ?case by simp
next
  case (Suc d)
  have l: "length (take (d * n) xs) = d * n" using Suc.prems by simp
  have eq: "map (chunk n xs) [0 ..< d] = map (chunk n (take (d * n) xs)) [0 ..< d]"
  proof (rule map_cong [OF refl])
    fix i assume "i \<in> set [0 ..< d]"
    then have "i * n + n \<le> d * n"
      by (metis atLeastLessThan_iff set_upt Suc_leI mult_Suc mult_le_mono1 add.commute)
    then show "chunk n xs i = chunk n (take (d * n) xs) i"
      by (simp add: chunk_def drop_take min_def)
  qed
  have "concat (map (chunk n xs) [0 ..< d]) = take (d * n) xs"
    by (simp only: eq Suc.IH [OF l])
  moreover have "chunk n xs d = drop (d * n) xs"
    using Suc.prems by (simp add: chunk_def)
  ultimately show ?case by simp
qed

lemma length_chunk: "length xs = d * n \<Longrightarrow> i < d \<Longrightarrow> length (chunk n xs i) = n"
proof -
  assume a: "length xs = d * n" "i < d"
  then have "i * n + n \<le> d * n"
    by (metis Suc_leI mult_Suc mult_le_mono1 add.commute)
  then show ?thesis using a by (simp add: chunk_def)
qed

lemma bcast_scalar:
  "length xs = prod_list ds \<Longrightarrow>
   bcast f ds xs (replicate (length ds) 1) [y] = map (\<lambda>v. f v y) xs"
proof (induction ds arbitrary: xs)
  case Nil
  then obtain x where "xs = [x]" by (cases xs) auto
  then show ?case by simp
next
  case (Cons d ds)
  let ?P = "prod_list ds"
  have len: "length xs = d * ?P" using Cons.prems by simp
  have one: "chunk (prod_list (replicate (length ds) (1::nat))) [y] 0 = [y]"
    by (simp add: chunk_def)
  have "bcast f (d # ds) xs (replicate (length (d # ds)) 1) [y] =
      concat (map (\<lambda>i. bcast f ds (chunk ?P xs i) (replicate (length ds) 1) [y]) [0 ..< d])"
    by (cases "d = 1") (simp_all add: chunk_def)
  also have "\<dots> = concat (map (\<lambda>i. map (\<lambda>v. f v y) (chunk ?P xs i)) [0 ..< d])"
  proof -
    have eq: "map (\<lambda>i. bcast f ds (chunk ?P xs i) (replicate (length ds) 1) [y]) [0 ..< d] =
          map (\<lambda>i. map (\<lambda>v. f v y) (chunk ?P xs i)) [0 ..< d]"
    proof (rule map_cong [OF refl])
      fix i assume "i \<in> set [0 ..< d]"
      then have "length (chunk ?P xs i) = ?P" using length_chunk [OF len] by simp
      then show "bcast f ds (chunk ?P xs i) (replicate (length ds) 1) [y] =
          map (\<lambda>v. f v y) (chunk ?P xs i)"
        by (rule Cons.IH)
    qed
    show ?thesis by (simp only: eq)
  qed
  also have "\<dots> = map (\<lambda>v. f v y) (concat (map (chunk ?P xs) [0 ..< d]))"
    by (simp add: map_concat comp_def)
  also have "\<dots> = map (\<lambda>v. f v y) xs"
    by (simp add: concat_chunks [OF len])
  finally show ?case .
qed


lemma bcast_lead1:
  "bcast f (1 # ds) xs (1 # es) ys =
     bcast f ds (chunk (prod_list ds) xs 0) es (chunk (prod_list es) ys 0)"
  by simp

lemma bcast_lead3:
  "bcast f (3 # ds) xs (3 # es) ys =
     bcast f ds (chunk (prod_list ds) xs 0) es (chunk (prod_list es) ys 0) @
     bcast f ds (chunk (prod_list ds) xs 1) es (chunk (prod_list es) ys 1) @
     bcast f ds (chunk (prod_list ds) xs 2) es (chunk (prod_list es) ys 2)"
proof -
  have u: "[0 ..< 3] = [0, 1, 2]" by (simp add: upt_rec)
  show ?thesis by (simp add: u)
qed

lemma bcast_per_channel:
  assumes "length c0 = h * w" "length c1 = h * w" "length c2 = h * w"
  shows "bcast f [1, 3, h, w] (c0 @ c1 @ c2) [1, 3, 1, 1] [y0, y1, y2] =
     map (\<lambda>v. f v y0) c0 @ map (\<lambda>v. f v y1) c1 @ map (\<lambda>v. f v y2) c2"
proof -
  have s: "bcast f [h, w] c [1, 1] [y] = map (\<lambda>v. f v y) c" if "length c = h * w" for c y
    using bcast_scalar [of c "[h, w]" f y] that by (simp add: numeral_2_eq_2)
  have p: "prod_list [3, h, w] = 3 * (h * w)" "prod_list [h, w] = h * w"
    "prod_list [3, 1, 1] = (3::nat)" "prod_list [1, 1] = (1::nat)"
    by simp_all
  have k0: "chunk (h * w) (c0 @ c1 @ c2) 0 = c0" using assms by (simp add: chunk_def)
  have k1: "chunk (h * w) (c0 @ c1 @ c2) 1 = c1" using assms by (simp add: chunk_def)
  have k2: "chunk (h * w) (c0 @ c1 @ c2) 2 = c2" using assms by (simp add: chunk_def)
  have t: "chunk (3 * (h * w)) (c0 @ c1 @ c2) 0 = c0 @ c1 @ c2" using assms by (simp add: chunk_def)
  have y: "chunk 3 [y0, y1, y2] 0 = [y0, y1, y2]" "chunk 1 [y0, y1, y2] 0 = [y0]"
    "chunk 1 [y0, y1, y2] 1 = [y1]" "chunk 1 [y0, y1, y2] 2 = [y2]"
    by (simp_all add: chunk_def)
  have "bcast f [1, 3, h, w] (c0 @ c1 @ c2) [1, 3, 1, 1] [y0, y1, y2] =
        bcast f [3, h, w] (c0 @ c1 @ c2) [3, 1, 1] [y0, y1, y2]"
    by (simp only: bcast_lead1 p t y)
  also have "\<dots> = bcast f [h, w] c0 [1, 1] [y0] @ bcast f [h, w] c1 [1, 1] [y1]
       @ bcast f [h, w] c2 [1, 1] [y2]"
    by (simp only: bcast_lead3 p k0 k1 k2 y)
  also have "\<dots> = map (\<lambda>v. f v y0) c0 @ map (\<lambda>v. f v y1) c1 @ map (\<lambda>v. f v y2) c2"
    by (simp only: s [OF assms(1)] s [OF assms(2)] s [OF assms(3)])
  finally show ?thesis .
qed


lemma tensor_binop_per_channel:
  assumes "shape x = [1, 3, h, w]" "elems x = c0 @ c1 @ c2"
    and "length c0 = h * w" "length c1 = h * w" "length c2 = h * w"
    and "dtype x = dt"
  shows "tensor_binop f dt x \<lparr>dtype = dt, shape = [1, 3, 1, 1], elems = [y0, y1, y2]\<rparr> =
     Inr \<lparr>dtype = dt, shape = [1, 3, h, w],
          elems = map (\<lambda>v. sround dt (f v y0)) c0 @ map (\<lambda>v. sround dt (f v y1)) c1 @
                  map (\<lambda>v. sround dt (f v y2)) c2\<rparr>"
proof -
  have b: "broadcast_dims [1, 3, h, w] [1, 3, 1, 1] = Some [1, 3, h, w]"
    by simp
  have n: "max (length [1, 3, h, w]) (length [1, 3, 1, 1::nat]) = 4"
    by simp
  have pa: "pad_shape 4 [1, 3, h, w] = [1, 3, h, w]" "pad_shape 4 [1, 3, 1, 1] = [1, 3, 1, 1]"
    by (simp_all add: pad_shape_def)
  have ca: "cast_elems dt x = c0 @ c1 @ c2"
    by (simp add: cast_elems_def assms(2,6))
  have cb: "cast_elems dt \<lparr>dtype = dt, shape = [1, 3, 1, 1], elems = [y0, y1, y2]\<rparr> = [y0, y1, y2]"
    by (simp add: cast_elems_def)
  show ?thesis
    by (simp only: tensor_binop_def Let_def assms(1) tensor.select_convs n pa b option.case ca cb
        bcast_per_channel [OF assms(3-5)])
qed

text \<open>
  On a float32 image of shape \<open>(1, 3, h, w)\<close> with channels \<open>c0\<close>, \<open>c1\<close>, \<open>c2\<close> the
  broadcast of line 71 standardizes each channel with its own constants, in float32
  arithmetic: the difference is rounded, then the quotient.
\<close>

lemma standardize_per_channel:
  assumes "dtype x = Float32" "shape x = [1, 3, h, w]" "elems x = c0 @ c1 @ c2"
    and "length c0 = h * w" "length c1 = h * w" "length c2 = h * w"
    and "mean m = \<lparr>dtype = Float32, shape = [1, 3, 1, 1], elems = [m0, m1, m2]\<rparr>"
    and "std m = \<lparr>dtype = Float32, shape = [1, 3, 1, 1], elems = [s0, s1, s2]\<rparr>"
  shows "standardize m x =
     Inr \<lparr>dtype = Float32, shape = [1, 3, h, w],
          elems = map (\<lambda>v. sround Float32 (sdiv (sround Float32 (ssub v m0)) s0)) c0 @
                  map (\<lambda>v. sround Float32 (sdiv (sround Float32 (ssub v m1)) s1)) c1 @
                  map (\<lambda>v. sround Float32 (sdiv (sround Float32 (ssub v m2)) s2)) c2\<rparr>"
proof -
  let ?d = "\<lparr>dtype = Float32, shape = [1, 3, h, w],
          elems = map (\<lambda>v. sround Float32 (ssub v m0)) c0 @ map (\<lambda>v. sround Float32 (ssub v m1)) c1 @
                  map (\<lambda>v. sround Float32 (ssub v m2)) c2\<rparr>"
  have rt: "result_type x \<lparr>dtype = Float32, shape = [1, 3, 1, 1], elems = [m0, m1, m2]\<rparr> = Float32"
    by (simp add: result_type_def assms(1,2) promote_types_def)
  have sub: "tensor_sub x (mean m) = Inr ?d"
    unfolding tensor_sub_def assms(7) rt
    by (rule tensor_binop_per_channel [OF assms(2-6) assms(1)])
  have rt2: "result_type ?d \<lparr>dtype = Float32, shape = [1, 3, 1, 1], elems = [s0, s1, s2]\<rparr> = Float32"
    by (simp add: result_type_def promote_types_def)
  have fl: "is_floating Float32" by (simp add: is_floating_def)
  have dv: "tensor_div ?d (std m) = Inr \<lparr>dtype = Float32, shape = [1, 3, h, w],
          elems = map (\<lambda>v. sround Float32 (sdiv v s0)) (map (\<lambda>v. sround Float32 (ssub v m0)) c0) @
                  map (\<lambda>v. sround Float32 (sdiv v s1)) (map (\<lambda>v. sround Float32 (ssub v m1)) c1) @
                  map (\<lambda>v. sround Float32 (sdiv v s2)) (map (\<lambda>v. sround Float32 (ssub v m2)) c2)\<rparr>"
    unfolding tensor_div_def assms(8) rt2
    by (simp only: fl if_True) (rule tensor_binop_per_channel, simp_all add: assms)
  show ?thesis
    unfolding standardize_def sub bindE.simps dv by (simp add: comp_def)
qed

text \<open>The two buffers of the wrapper: the float32 values nearest to the literals.\<close>

lemma DepthKornia_buffers:
  "mean (DepthKornia_init api n h w) =
     \<lparr>dtype = Float32, shape = [1, 3, 1, 1],
      elems = [Fin (4068475 / 8388608), Fin (15300821 / 33554432), Fin (13623099 / 33554432)]\<rparr>"
  "std (DepthKornia_init api n h w) =
     \<lparr>dtype = Float32, shape = [1, 3, 1, 1],
      elems = [Fin (7683965 / 33554432), Fin (7516193 / 33554432), Fin (7549747 / 33554432)]\<rparr>"
proof -
  have m: "sround Float32 (py_float (485 / 1000)) = Fin (4068475 / 8388608)"
    "sround Float32 (py_float (456 / 1000)) = Fin (15300821 / 33554432)"
    "sround Float32 (py_float (406 / 1000)) = Fin (13623099 / 33554432)"
    by code_simp+
  have s: "sround Float32 (py_float (229 / 1000)) = Fin (7683965 / 33554432)"
    "sround Float32 (py_float (224 / 1000)) = Fin (7516193 / 33554432)"
    "sround Float32 (py_float (225 / 1000)) = Fin (7549747 / 33554432)"
    by code_simp+
  show "mean (DepthKornia_init api n h w) =
     \<lparr>dtype = Float32, shape = [1, 3, 1, 1],
      elems = [Fin (4068475 / 8388608), Fin (15300821 / 33554432), Fin (13623099 / 33554432)]\<rparr>"
    by (simp only: DepthKornia_init_def depth_kornia.select_convs torch_tensor_def tensor_view_def
        list.map m tensor.update_convs)
  show "std (DepthKornia_init api n h w) =
     \<lparr>dtype = Float32, shape = [1, 3, 1, 1],
      elems = [Fin (7683965 / 33554432), Fin (7516193 / 33554432), Fin (7549747 / 33554432)]\<rparr>"
    by (simp only: DepthKornia_init_def depth_kornia.select_convs torch_tensor_def tensor_view_def
        list.map s tensor.update_convs)
qed

subsection \<open>The steps\<close>

text \<open>
  C1. \<open>forward\<close> is the composition of the five steps in the order of the
  specification: dtype and range normalization, bilinear resize to \<open>(in_h, in_w)\<close>,
  standardization \<open>(x - mean) / std\<close>, the call of the wrapped network, and the
  normalization of the output rank. A step that raises ends the composition with its
  exception; nothing else is done to the tensor.
\<close>

theorem forward_is_composition:
  "forward api m x =
     bindE (normalize_dtype_and_range x)
       (\<lambda>a. bindE (resize api a (in_h m) (in_w m))
       (\<lambda>b. bindE (standardize m b)
       (\<lambda>c. bindE (infer api m c) normalize_output_rank)))"
proof -
  have r: "normalize_output_rank = (\<lambda>y. if tensor_dim y = 3 then unsqueeze 1 y else Inr y)"
    by (rule ext) (simp add: normalize_output_rank_def)
  show ?thesis
    by (simp add: forward_def normalize_dtype_and_range_def resize_def standardize_def
        infer_def r Let_def)
qed

text \<open>
  The finiteness and the maximum that line 66 and line 67 test are those of the tensor
  after \<^verbatim>\<open>x.float()\<close>. A float64 tensor with the elements \<open>1 + 2\<^sup>-\<^sup>3\<^sup>0\<close>, \<open>0\<close>,
  \<open>1/2\<close> is finite with a maximum above 1.0, but its float32 conversion has the maximum
  1.0 and is returned undivided. With \<open>2\<^sup>1\<^sup>3\<^sup>0\<close> for the first element, finite in
  float64, the conversion is \<open>+inf\<close> and the division is skipped.
\<close>

theorem normalize_range_counterexample:
  "list_all isfinite [Fin (1 + 1 / 2 ^ 30), Fin 0, Fin (1 / 2)] \<and>
   tensor_max \<lparr>dtype = Float64, shape = [1, 3, 1, 1], elems = [Fin (1 + 1 / 2 ^ 30), Fin 0, Fin (1 / 2)]\<rparr>
     = Inr (Fin (1 + 1 / 2 ^ 30)) \<and>
   sgt (Fin (1 + 1 / 2 ^ 30)) (Fin 1) \<and>
   normalize_dtype_and_range
       \<lparr>dtype = Float64, shape = [1, 3, 1, 1], elems = [Fin (1 + 1 / 2 ^ 30), Fin 0, Fin (1 / 2)]\<rparr>
     = Inr \<lparr>dtype = Float32, shape = [1, 3, 1, 1], elems = [Fin 1, Fin 0, Fin (1 / 2)]\<rparr> \<and>
   div_scalar \<lparr>dtype = Float32, shape = [1, 3, 1, 1], elems = [Fin 1, Fin 0, Fin (1 / 2)]\<rparr> (Fin 255)
     = \<lparr>dtype = Float32, shape = [1, 3, 1, 1],
        elems = [Fin (8421505 / 2147483648), Fin 0, Fin (8421505 / 4294967296)]\<rparr> \<and>
   list_all isfinite [Fin (2 ^ 130), Fin 0, Fin (1 / 2)] \<and>
   normalize_dtype_and_range
       \<lparr>dtype = Float64, shape = [1, 3, 1, 1], elems = [Fin (2 ^ 130), Fin 0, Fin (1 / 2)]\<rparr>
     = Inr \<lparr>dtype = Float32, shape = [1, 3, 1, 1], elems = [PosInf, Fin 0, Fin (1 / 2)]\<rparr>"
  by code_simp

text \<open>
  C2, as amended. On a tensor whose elements after the conversion to float32 (lines
  64-65; the input's own elements when it is float32) are all finite, the finite values
  \<open>rs\<close>, at least one: when their maximum is at most 1.0 the range step returns the
  converted tensor with its values unchanged, and when it is above 1.0 it returns it with
  every element divided by 255.0, each quotient rounded to float32.
\<close>

theorem normalize_range_finite:
  assumes "elems (as_float32 x) = map Fin rs" and "rs \<noteq> []"
  shows "(Max (set rs) \<le> 1 \<longrightarrow>
            normalize_dtype_and_range x = Inr (as_float32 x)) \<and>
         (1 < Max (set rs) \<longrightarrow>
            normalize_dtype_and_range x =
              Inr ((as_float32 x)\<lparr>elems := map (\<lambda>r. round_to Float32 (r / 255)) rs\<rparr>)) \<and>
         (dtype x = Float32 \<longrightarrow> as_float32 x = x)"
proof -
  let ?x1 = "as_float32 x"
  have fin: "isfinite_all ?x1" using assms(1) by (rule isfinite_all_Fin)
  have mx: "tensor_max ?x1 = Inr (Fin (Max (set rs)))" using assms by (rule tensor_max_Fin)
  have dv: "div_scalar ?x1 (Fin 255) = ?x1\<lparr>elems := map (\<lambda>r. round_to Float32 (r / 255)) rs\<rparr>"
    using assms(1) dtype_as_float32 by (rule div_scalar_Fin)
  show ?thesis
    by (simp add: normalize_dtype_and_range_def Let_def fin mx dv as_float32_id)
qed

theorem normalize_range_finite_witness:
  "normalize_dtype_and_range (demo_image [0, 1/2, 1, 1/4, 3/4, 1/8])
     = Inr (demo_image [0, 1/2, 1, 1/4, 3/4, 1/8]) \<and>
   normalize_dtype_and_range (demo_image [0, 51, 102, 153, 204, 255])
     = Inr (demo_image [0, 13421773 / 67108864, 13421773 / 33554432, 5033165 / 8388608,
                        13421773 / 16777216, 1])"
proof -
  have e: "\<And>rs. elems (as_float32 (demo_image rs)) = map Fin rs"
    by (simp add: as_float32_def demo_image_def)
  have q: "map (\<lambda>r. round_to Float32 (r / 255)) [0, 51, 102, 153, 204, 255] =
      map Fin [0, 13421773 / 67108864, 13421773 / 33554432, 5033165 / 8388608,
               13421773 / 16777216, 1]"
    by code_simp
  have n1: "[0, 1/2, 1, 1/4, 3/4, 1/8] \<noteq> ([]::real list)" by simp
  have m1: "Max (set [0, 1/2, 1, 1/4, 3/4, 1/8::real]) \<le> 1" by simp
  from normalize_range_finite [OF e n1] m1
  have "normalize_dtype_and_range (demo_image [0, 1/2, 1, 1/4, 3/4, 1/8])
     = Inr (as_float32 (demo_image [0, 1/2, 1, 1/4, 3/4, 1/8]))"
    by blast
  then have a: "normalize_dtype_and_range (demo_image [0, 1/2, 1, 1/4, 3/4, 1/8])
     = Inr (demo_image [0, 1/2, 1, 1/4, 3/4, 1/8])"
    by (simp only: as_float32_demo_image)
  have n2: "[0, 51, 102, 153, 204, 255] \<noteq> ([]::real list)" by simp
  have m2: "1 < Max (set [0, 51, 102, 153, 204, 255::real])" by simp
  from normalize_range_finite [OF e n2] m2
  have "normalize_dtype_and_range (demo_image [0, 51, 102, 153, 204, 255])
     = Inr ((as_float32 (demo_image [0, 51, 102, 153, 204, 255]))
              \<lparr>elems := map (\<lambda>r. round_to Float32 (r / 255)) [0, 51, 102, 153, 204, 255]\<rparr>)"
    by blast
  then have b: "normalize_dtype_and_range (demo_image [0, 51, 102, 153, 204, 255])
     = Inr (demo_image [0, 13421773 / 67108864, 13421773 / 33554432, 5033165 / 8388608,
                        13421773 / 16777216, 1])"
    unfolding q as_float32_demo_image by (simp add: demo_image_def)
  from a b show ?thesis by (intro conjI)
qed

text \<open>
  C3. On a tensor with a non-finite element (NaN or an infinity) the division by 255 is
  skipped: the range step returns the float32 tensor as it is, whatever its maximum,
  also when finite elements are above 1.0.
\<close>

theorem nonfinite_skips_rescale:
  assumes "\<exists>v \<in> set (elems (as_float32 x)). \<not> isfinite v"
  shows "normalize_dtype_and_range x = Inr (as_float32 x) \<and>
         (dtype x = Float32 \<longrightarrow> normalize_dtype_and_range x = Inr x)"
  using assms
  by (auto simp: normalize_dtype_and_range_def Let_def isfinite_all_def list_all_iff as_float32_id)

theorem nonfinite_skips_rescale_witness:
  "(\<exists>v \<in> set [Fin 200, NaN, Fin 3, PosInf, Fin 0, Fin 255]. \<not> isfinite v) \<and>
   normalize_dtype_and_range
       \<lparr>dtype = Float32, shape = [1, 3, 1, 2], elems = [Fin 200, NaN, Fin 3, PosInf, Fin 0, Fin 255]\<rparr>
     = Inr \<lparr>dtype = Float32, shape = [1, 3, 1, 2],
            elems = [Fin 200, NaN, Fin 3, PosInf, Fin 0, Fin 255]\<rparr>"
  using nonfinite_skips_rescale [of
      "\<lparr>dtype = Float32, shape = [1, 3, 1, 2], elems = [Fin 200, NaN, Fin 3, PosInf, Fin 0, Fin 255]\<rparr>"]
  by (simp add: as_float32_def)

lemma bindE_eq_Inr: "bindE m f = Inr y \<longleftrightarrow> (\<exists>v. m = Inr v \<and> f v = Inr y)"
  by (cases m) simp_all

lemma depth_shape_iff: "depth_shape s \<longleftrightarrow> (\<exists>h w. s = [1, h, w] \<or> s = [1, 1, h, w])"
  by (auto simp: depth_shape_def split: list.splits)

lemma normalize_output_rank_cases:
  assumes "normalize_output_rank z = Inr y"
  shows "elems y = elems z \<and> dtype y = dtype z \<and>
         (\<forall>h w. shape z = [1, 1, h, w] \<longrightarrow> y = z) \<and>
         (\<forall>h w. shape z = [1, h, w] \<longrightarrow> shape y = [1, 1, h, w]) \<and>
         (depth_shape (shape z) \<longrightarrow> tensor_dim y = 4 \<and> shape y ! 1 = 1)"
  using assms
  by (auto simp: normalize_output_rank_def tensor_dim_def unsqueeze_def depth_shape_iff
      split: if_splits)

text \<open>
  C4. Every tensor that \<open>forward\<close> returns is an output \<open>z\<close> of the wrapped network
  with the same elements: \<open>z\<close> itself when its shape is \<open>(1, 1, h, w)\<close>, and with the
  shape \<open>(1, 1, h, w)\<close>, a dimension of size 1 inserted at position 1, when its shape is
  \<open>(1, h, w)\<close>. In both cases the output has rank 4 and channel dimension 1.
\<close>

theorem forward_output_rank:
  assumes "forward api m x = Inr y"
  shows "\<exists>t z. net_call api (net m) t = Inr z \<and> elems y = elems z \<and> dtype y = dtype z \<and>
           (\<forall>h w. shape z = [1, 1, h, w] \<longrightarrow> y = z) \<and>
           (\<forall>h w. shape z = [1, h, w] \<longrightarrow> shape y = [1, 1, h, w]) \<and>
           (depth_shape (shape z) \<longrightarrow> tensor_dim y = 4 \<and> shape y ! 1 = 1)"
proof -
  have r: "(\<lambda>y. if tensor_dim y = 3 then unsqueeze 1 y else Inr y) = normalize_output_rank"
    by (rule ext) (simp add: normalize_output_rank_def)
  from assms obtain t z where n: "net_call api (net m) t = Inr z"
    and o: "normalize_output_rank z = Inr y"
    unfolding forward_def Let_def bindE_eq_Inr r by blast
  from n normalize_output_rank_cases [OF o] show ?thesis by blast
qed


lemma demo_net_contract: "\<forall>t z. demo_net_call n t = Inr z \<longrightarrow> depth_shape (shape z)"
  by (auto simp: demo_net_call_def depth_shape_def split: list.splits)

lemma forward_demo:
  "forward demo_api demo_model (demo_image [0, 51, 102, 153, 204, 255]) =
     Inr \<lparr>dtype = Float32, shape = [1, 1, 1, 2],
          elems = [Fin (- (8883133 / 4194304)), Fin (- (2609993 / 2097152))]\<rparr>"
  by code_simp

theorem forward_output_rank_witness:
  "forward demo_api demo_model (demo_image [0, 51, 102, 153, 204, 255]) =
     Inr \<lparr>dtype = Float32, shape = [1, 1, 1, 2], elems = [Fin (- (8883133 / 4194304)), Fin (- (2609993 / 2097152))]\<rparr> \<and>
   (\<exists>t z. demo_net_call (net demo_model) t = Inr z \<and> depth_shape (shape z) \<and>
      elems z = [Fin (- (8883133 / 4194304)), Fin (- (2609993 / 2097152))] \<and>
      tensor_dim \<lparr>dtype = Float32, shape = [1, 1, 1, 2],
                 elems = [Fin (- (8883133 / 4194304)), Fin (- (2609993 / 2097152))]\<rparr> = 4)"
proof -
  have n: "net_call demo_api = demo_net_call" by (simp add: demo_api_def)
  from forward_output_rank [OF forward_demo] obtain t z
    where z: "demo_net_call (net demo_model) t = Inr z"
      and e: "elems \<lparr>dtype = Float32, shape = [1, 1, 1, 2],
                 elems = [Fin (- (8883133 / 4194304)), Fin (- (2609993 / 2097152))]\<rparr> = elems z"
      and d: "depth_shape (shape z) \<longrightarrow> tensor_dim \<lparr>dtype = Float32, shape = [1, 1, 1, 2],
                 elems = [Fin (- (8883133 / 4194304)), Fin (- (2609993 / 2097152))]\<rparr> = 4 \<and>
                 shape \<lparr>dtype = Float32, shape = [1, 1, 1, 2],
                 elems = [Fin (- (8883133 / 4194304)), Fin (- (2609993 / 2097152))]\<rparr> ! 1 = 1"
    unfolding n by blast
  from z demo_net_contract have c: "depth_shape (shape z)" by blast
  from e have e': "elems z = [Fin (- (8883133 / 4194304)), Fin (- (2609993 / 2097152))]" by simp
  from d c have "tensor_dim \<lparr>dtype = Float32, shape = [1, 1, 1, 2],
                 elems = [Fin (- (8883133 / 4194304)), Fin (- (2609993 / 2097152))]\<rparr> = 4" by blast
  with forward_demo z c e' show ?thesis by blast
qed

section \<open>Properties of the pipeline\<close>

lemma str_lower_keys: "k \<in> set (map fst MODEL_KEY_MAP) \<Longrightarrow> str_lower k = k"
  by (auto simp: MODEL_KEY_MAP_def str_lower_def lower_char_def)

lemma distinct_keys: "distinct (map fst MODEL_KEY_MAP)"
  by (simp add: MODEL_KEY_MAP_def)

lemma lookup_known:
  assumes "(k, a) \<in> set MODEL_KEY_MAP" "str_lower model_key = str_lower k"
  shows "map_of MODEL_KEY_MAP (str_lower model_key) = Some a"
proof -
  from assms(1) have "k \<in> set (map fst MODEL_KEY_MAP)" by force
  then have "str_lower model_key = k" using assms(2) by (simp add: str_lower_keys)
  then show ?thesis using assms(1) distinct_keys by simp
qed

lemma lookup_unknown:
  assumes "\<forall>k \<in> set (map fst MODEL_KEY_MAP). str_lower model_key \<noteq> str_lower k"
  shows "map_of MODEL_KEY_MAP (str_lower model_key) = None"
proof -
  have "str_lower model_key \<notin> set (map fst MODEL_KEY_MAP)"
  proof
    assume "str_lower model_key \<in> set (map fst MODEL_KEY_MAP)"
    then show False using assms str_lower_keys by metis
  qed
  then show ?thesis by (simp add: map_of_eq_None_iff)
qed

lemma keys_literal:
  "map fst MODEL_KEY_MAP = [''midas_small'', ''dpt_swin2_tiny_256'', ''dpt_levit_224'', ''midas_v21_small_256'']"
  by (simp add: MODEL_KEY_MAP_def)

text \<open>
  C5. A model key that equals, after lowering, a key of the table resolves to the
  architecture identifier the table gives for it, and \<open>load_midas_model\<close> goes on with
  that identifier. Any other key fails: the message with the list of valid keys is
  printed to the error stream, \<^verbatim>\<open>sys.exit(2)\<close> ends \<open>load_midas_model\<close> and
  \<open>export\<close>, and the exit status is 2.
\<close>

theorem resolve_architecture_cases:
  "(\<forall>k a. (k, a) \<in> set MODEL_KEY_MAP \<and> str_lower model_key = str_lower k \<longrightarrow>
       resolve_architecture model_key w = (Inr a, w) \<and>
       load_midas_model api model_key weights w = acquire_network api a weights w) \<and>
   ((\<forall>k \<in> set (map fst MODEL_KEY_MAP). str_lower model_key \<noteq> str_lower k) \<longrightarrow>
       resolve_architecture model_key w =
         (Inl (SystemExit 2),
          print_err (''Unknown --model '' @ model_key @ ''. Choices: '' @
            repr_list [''midas_small'', ''dpt_swin2_tiny_256'', ''dpt_levit_224'',
                       ''midas_v21_small_256'']) w) \<and>
       fst (load_midas_model api model_key weights w) = Inl (SystemExit 2) \<and>
       snd (load_midas_model api model_key weights w) = snd (resolve_architecture model_key w) \<and>
       fst (export api model_key weights sz out_path w) = Inl (SystemExit 2) \<and>
       snd (export api model_key weights sz out_path w) = snd (resolve_architecture model_key w) \<and>
       exit_status (fst (export api model_key weights sz out_path w)) = 2)"
proof (intro conjI allI impI)
  fix k a
  assume h: "(k, a) \<in> set MODEL_KEY_MAP \<and> str_lower model_key = str_lower k"
  then have l: "map_of MODEL_KEY_MAP (str_lower model_key) = Some a"
    using lookup_known by blast
  show r: "resolve_architecture model_key w = (Inr a, w)"
    by (simp add: resolve_architecture_def l)
  show "load_midas_model api model_key weights w = acquire_network api a weights w"
    by (simp add: load_midas_model_def r)
next
  assume h: "\<forall>k \<in> set (map fst MODEL_KEY_MAP). str_lower model_key \<noteq> str_lower k"
  then have l: "map_of MODEL_KEY_MAP (str_lower model_key) = None"
    by (rule lookup_unknown)
  show r: "resolve_architecture model_key w =
         (Inl (SystemExit 2),
          print_err (''Unknown --model '' @ model_key @ ''. Choices: '' @
            repr_list [''midas_small'', ''dpt_swin2_tiny_256'', ''dpt_levit_224'',
                       ''midas_v21_small_256'']) w)"
    by (simp only: resolve_architecture_def l keys_literal option.case)
  show f: "fst (load_midas_model api model_key weights w) = Inl (SystemExit 2)"
    by (simp add: load_midas_model_def r)
  show s: "snd (load_midas_model api model_key weights w) = snd (resolve_architecture model_key w)"
    by (simp add: load_midas_model_def r)
  have "load_midas_model api model_key weights w =
      (Inl (SystemExit 2), snd (resolve_architecture model_key w))"
    using f s by (metis prod.collapse)
  then have e: "export api model_key weights sz out_path w =
      (Inl (SystemExit 2), snd (resolve_architecture model_key w))"
    by (simp add: export_def)
  show "fst (export api model_key weights sz out_path w) = Inl (SystemExit 2)"
    by (simp add: e)
  show "snd (export api model_key weights sz out_path w) = snd (resolve_architecture model_key w)"
    by (simp add: e)
  show "exit_status (fst (export api model_key weights sz out_path w)) = 2"
    by (simp add: e)
qed

theorem resolve_architecture_cases_witness:
  "resolve_architecture ''DPT_Swin2_Tiny_256'' world0 = (Inr ''DPT_Swin2_Tiny_256'', world0) \<and>
   resolve_architecture ''notamodel'' world0 =
     (Inl (SystemExit 2),
      print_err (''Unknown --model notamodel. Choices: '' @
            repr_list [''midas_small'', ''dpt_swin2_tiny_256'', ''dpt_levit_224'',
                       ''midas_v21_small_256'']) world0) \<and>
   exit_status (fst (export demo_api ''notamodel'' None 256 ''test.ptl'' world0)) = 2 \<and>
   files (snd (export demo_api ''notamodel'' None 256 ''test.ptl'' world0)) = []"
proof -
  have a: "(''dpt_swin2_tiny_256'', ''DPT_Swin2_Tiny_256'') \<in> set MODEL_KEY_MAP \<and>
     str_lower ''DPT_Swin2_Tiny_256'' = str_lower ''dpt_swin2_tiny_256''"
    by (simp add: MODEL_KEY_MAP_def str_lower_def lower_char_def)
  have b: "\<forall>k \<in> set (map fst MODEL_KEY_MAP). str_lower ''notamodel'' \<noteq> str_lower k"
    by (simp add: MODEL_KEY_MAP_def str_lower_def lower_char_def)
  note known = resolve_architecture_cases
      [of "''DPT_Swin2_Tiny_256''" world0 demo_api None 256 "''test.ptl''"]
  note unknown = resolve_architecture_cases
      [of "''notamodel''" world0 demo_api None 256 "''test.ptl''"]
  from known a have r1:
    "resolve_architecture ''DPT_Swin2_Tiny_256'' world0 = (Inr ''DPT_Swin2_Tiny_256'', world0)"
    by blast
  from unknown b have r2: "resolve_architecture ''notamodel'' world0 =
     (Inl (SystemExit 2),
      print_err (''Unknown --model '' @ ''notamodel'' @ ''. Choices: '' @
            repr_list [''midas_small'', ''dpt_swin2_tiny_256'', ''dpt_levit_224'',
                       ''midas_v21_small_256'']) world0)"
    by blast
  from unknown b have r3:
    "exit_status (fst (export demo_api ''notamodel'' None 256 ''test.ptl'' world0)) = 2"
    by blast
  from unknown b have "snd (export demo_api ''notamodel'' None 256 ''test.ptl'' world0) =
      snd (resolve_architecture ''notamodel'' world0)"
    by blast
  then have r4: "files (snd (export demo_api ''notamodel'' None 256 ''test.ptl'' world0)) = []"
    by (simp only: r2 snd_conv) (simp add: print_err_def world0_def)
  from r2 have r2': "resolve_architecture ''notamodel'' world0 =
     (Inl (SystemExit 2),
      print_err (''Unknown --model notamodel. Choices: '' @
            repr_list [''midas_small'', ''dpt_swin2_tiny_256'', ''dpt_levit_224'',
                       ''midas_v21_small_256'']) world0)"
    by simp
  from r1 r2' r3 r4 show ?thesis by (intro conjI)
qed

lemma acquire_network_loaded:
  assumes "hub_load api ''intel-isl/MiDaS'' hub_key True False = Inr n"
    and "path \<noteq> []" and "torch_load api path ''cpu'' = Inr sd"
  shows "acquire_network api hub_key (Some path) w =
     (case load_state_dict api n (unwrap_state_dict sd) False of
        (None, n') \<Rightarrow> (Inr (net_eval api n'), w)
      | (Some e, n') \<Rightarrow>
          (Inr (net_eval api n'),
           print_err (''Warning: load_state_dict(strict=False) failed: '' @ str_of_exception e) w))"
  using assms by (simp add: acquire_network_def)

lemma acquire_network_unwrapped:
  assumes "path \<noteq> []" and "torch_load api path ''cpu'' = Inr sd"
  shows "acquire_network api hub_key (Some path) w =
     (case hub_load api ''intel-isl/MiDaS'' hub_key True False of
        Inl e \<Rightarrow> (Inl (Raised e), w)
      | Inr n \<Rightarrow>
         (case load_state_dict api n (unwrap_state_dict sd) False of
            (None, n') \<Rightarrow> (Inr (net_eval api n'), w)
          | (Some e, n') \<Rightarrow>
              (Inr (net_eval api n'),
               print_err (''Warning: load_state_dict(strict=False) failed: '' @ str_of_exception e) w)))"
  using assms by (simp add: acquire_network_def cong: sum.case_cong)

text \<open>
  The unwrapping looks for the key in whatever dictionary the file holds. A mapping
  \<open>odd_state\<close> with an entry named \<^verbatim>\<open>state_dict\<close> beside a parameter is applied
  when it is wrapped; loaded directly, line 88 replaces it by that entry, a tensor, whose
  application raises and leaves the parameter as it was.
\<close>

theorem state_dict_unwrap_counterexample:
  "demo_torch_load ''odd_direct.pt'' ''cpu'' = Inr (PyDict odd_state) \<and>
   demo_torch_load ''odd_wrapped.pt'' ''cpu'' = Inr (PyDict [(''state_dict'', PyDict odd_state)]) \<and>
   acquire_network demo_api ''MiDaS_small'' (Some ''odd_wrapped.pt'') world0 =
     (Inr [(''conv.weight'', demo_weight 7)], world0) \<and>
   acquire_network demo_api ''MiDaS_small'' (Some ''odd_direct.pt'') world0 =
     (Inr [(''conv.weight'', demo_weight 0)],
      print_err ''Warning: load_state_dict(strict=False) failed: Expected state_dict to be dict-like'' world0) \<and>
   acquire_network demo_api ''MiDaS_small'' (Some ''odd_wrapped.pt'') world0 \<noteq>
   acquire_network demo_api ''MiDaS_small'' (Some ''odd_direct.pt'') world0"
  by (simp add: acquire_network_def demo_api_def demo_hub_load_def MODEL_KEY_MAP_def
      demo_torch_load_def odd_state_def demo_load_state_dict_def demo_weight_def)

text \<open>
  C6, as amended. For a state mapping \<open>S\<close> that has no entry named
  \<^verbatim>\<open>state_dict\<close> itself, a file whose dictionary holds \<open>S\<close> under the key
  \<^verbatim>\<open>state_dict\<close> and a file that holds \<open>S\<close> directly give the same network and
  the same output. (The counterexample before it: a mapping with an entry of that name is
  unwrapped once more when it is loaded directly.)
\<close>

theorem state_dict_unwrap_transparent:
  assumes "torch_load api p_wrapped ''cpu'' = Inr (PyDict kvs)"
    and "map_of kvs ''state_dict'' = Some (PyDict S)"
    and "torch_load api p_direct ''cpu'' = Inr (PyDict S)"
    and "map_of S ''state_dict'' = None"
    and "p_wrapped \<noteq> []" and "p_direct \<noteq> []"
  shows "acquire_network api hub_key (Some p_wrapped) w =
         acquire_network api hub_key (Some p_direct) w \<and>
         load_midas_model api model_key (Some p_wrapped) w =
         load_midas_model api model_key (Some p_direct) w"
proof -
  have u1: "unwrap_state_dict (PyDict kvs) = PyDict S" using assms(2) by simp
  have u2: "unwrap_state_dict (PyDict S) = PyDict S" using assms(4) by simp
  have a: "acquire_network api k (Some p_wrapped) w' = acquire_network api k (Some p_direct) w'"
    for k and w' :: "'b world"
    by (simp only: acquire_network_unwrapped [OF assms(5) assms(1)]
        acquire_network_unwrapped [OF assms(6) assms(3)] u1 u2)
  show ?thesis by (simp add: load_midas_model_def a cong: sum.case_cong prod.case_cong)
qed

theorem state_dict_unwrap_transparent_witness:
  "acquire_network demo_api ''MiDaS_small'' (Some ''wrapped.pt'') world0 =
   acquire_network demo_api ''MiDaS_small'' (Some ''direct.pt'') world0 \<and>
   acquire_network demo_api ''MiDaS_small'' (Some ''direct.pt'') world0 =
     (Inr [(''conv.weight'', demo_weight 7)], world0)"
proof -
  have 1: "torch_load demo_api ''wrapped.pt'' ''cpu'' =
      Inr (PyDict [(''epoch'', PyOther ''3''), (''state_dict'', PyDict demo_state)])"
    by (simp add: demo_api_def demo_torch_load_def)
  have 2: "map_of [(''epoch'', PyOther ''3''), (''state_dict'', PyDict demo_state)] ''state_dict''
      = Some (PyDict demo_state)"
    by simp
  have 3: "torch_load demo_api ''direct.pt'' ''cpu'' = Inr (PyDict demo_state)"
    by (simp add: demo_api_def demo_torch_load_def)
  have 4: "map_of demo_state ''state_dict'' = None"
    by (simp add: demo_state_def)
  have 5: "acquire_network demo_api ''MiDaS_small'' (Some ''direct.pt'') world0 =
     (Inr [(''conv.weight'', demo_weight 7)], world0)"
    by (simp add: acquire_network_def demo_api_def demo_hub_load_def MODEL_KEY_MAP_def
      demo_torch_load_def demo_state_def demo_load_state_dict_def demo_weight_def)
  from state_dict_unwrap_transparent [OF 1 2 3 4, of "''MiDaS_small''" world0 "''midas_small''"] 5
  show ?thesis by simp
qed

text \<open>
  C7. Once the network is acquired and the weights file is read, applying the weights
  never ends \<open>load_midas_model\<close>: whether \<^verbatim>\<open>load_state_dict(sd, strict=False)\<close>
  returns (a mismatch of names it tolerates) or raises, the network, in whatever state the
  call left it, is returned in inference mode. Nothing is printed in the first case; in
  the second the warning with the exception's text goes to the error stream.
\<close>

theorem weight_mismatch_tolerated:
  assumes "map_of MODEL_KEY_MAP (str_lower model_key) = Some hub_key"
    and "hub_load api ''intel-isl/MiDaS'' hub_key True False = Inr n"
    and "path \<noteq> []" and "torch_load api path ''cpu'' = Inr sd"
  shows "\<exists>r n'. load_state_dict api n (unwrap_state_dict sd) False = (r, n') \<and>
           load_midas_model api model_key (Some path) w =
             (Inr (net_eval api n'),
              case r of
                None \<Rightarrow> w
              | Some e \<Rightarrow> print_err (''Warning: load_state_dict(strict=False) failed: ''
                                     @ str_of_exception e) w)"
proof -
  obtain r n' where l: "load_state_dict api n (unwrap_state_dict sd) False = (r, n')"
    by (cases "load_state_dict api n (unwrap_state_dict sd) False") blast
  have k: "resolve_architecture model_key w = (Inr hub_key, w)"
    by (simp add: resolve_architecture_def assms(1))
  have "load_midas_model api model_key (Some path) w =
             (Inr (net_eval api n'),
              case r of
                None \<Rightarrow> w
              | Some e \<Rightarrow> print_err (''Warning: load_state_dict(strict=False) failed: ''
                                     @ str_of_exception e) w)"
    using acquire_network_loaded [OF assms(2-4), of w]
    by (cases r) (simp_all add: load_midas_model_def k l)
  with l show ?thesis by blast
qed

theorem weight_mismatch_tolerated_witness:
  "load_midas_model demo_api ''midas_small'' (Some ''renamed.pt'') world0 =
     (Inr [(''conv.weight'', demo_weight 0)], world0) \<and>
   load_midas_model demo_api ''midas_small'' (Some ''module.pt'') world0 =
     (Inr [(''conv.weight'', demo_weight 0)],
      print_err ''Warning: load_state_dict(strict=False) failed: Expected state_dict to be dict-like'' world0)"
proof -
  have k: "map_of MODEL_KEY_MAP (str_lower ''midas_small'') = Some ''MiDaS_small''"
    by (simp add: MODEL_KEY_MAP_def str_lower_def lower_char_def)
  have h: "hub_load demo_api ''intel-isl/MiDaS'' ''MiDaS_small'' True False
      = Inr [(''conv.weight'', demo_weight 0)]"
    by (simp add: demo_api_def demo_hub_load_def MODEL_KEY_MAP_def)
  have t1: "torch_load demo_api ''renamed.pt'' ''cpu'' =
      Inr (PyDict [(''module.conv.weight'', PyTensor (demo_weight 7))])"
    by (simp add: demo_api_def demo_torch_load_def)
  have t2: "torch_load demo_api ''module.pt'' ''cpu'' = Inr (PyOther ''MidasNet'')"
    by (simp add: demo_api_def demo_torch_load_def)
  have l1: "load_state_dict demo_api [(''conv.weight'', demo_weight 0)]
      (unwrap_state_dict (PyDict [(''module.conv.weight'', PyTensor (demo_weight 7))])) False
      = (None, [(''conv.weight'', demo_weight 0)])"
    by (simp add: demo_api_def demo_load_state_dict_def)
  have l2: "load_state_dict demo_api [(''conv.weight'', demo_weight 0)]
      (unwrap_state_dict (PyOther ''MidasNet'')) False
      = (Some (Exception ''Expected state_dict to be dict-like''), [(''conv.weight'', demo_weight 0)])"
    by (simp add: demo_api_def demo_load_state_dict_def)
  have e: "net_eval demo_api = (\<lambda>n. n)" by (simp add: demo_api_def)
  from weight_mismatch_tolerated [OF k h _ t1, of world0]
  have a: "load_midas_model demo_api ''midas_small'' (Some ''renamed.pt'') world0 =
     (Inr [(''conv.weight'', demo_weight 0)], world0)"
    unfolding l1 e by auto
  from weight_mismatch_tolerated [OF k h _ t2, of world0]
  have b: "load_midas_model demo_api ''midas_small'' (Some ''module.pt'') world0 =
     (Inr [(''conv.weight'', demo_weight 0)],
      print_err ''Warning: load_state_dict(strict=False) failed: Expected state_dict to be dict-like'' world0)"
    unfolding l2 e by auto
  from a b show ?thesis by (intro conjI)
qed

lemma optimize_stage_Inr: "\<exists>ts'. optimize_stage api ts = Inr ts'"
proof (cases "import_optimize_for_mobile api")
  case (Inl e)
  then show ?thesis by (simp add: optimize_stage_def)
next
  case (Inr opt)
  then show ?thesis by (cases "opt ts") (simp_all add: optimize_stage_def)
qed

text \<open>
  C8. The optimization stage always yields a graph. When the optimizer cannot be
  imported, or its application to the traced graph raises, that graph is the traced one,
  unchanged, and \<open>export\<close> goes on to serialize it.
\<close>

theorem optimizer_failure_falls_back:
  assumes "load_midas_model api model_name weights_path w = (Inr base, w1)"
    and "randn api [1, 3, sz, sz] = Inr example"
    and "jit_trace api (DepthKornia_eval api (DepthKornia_init api base sz sz)) example False False
           = Inr ts"
    and "(\<exists>e. import_optimize_for_mobile api = Inl e) \<or>
         (\<exists>opt e. import_optimize_for_mobile api = Inr opt \<and> opt ts = Inl e)"
  shows "optimize_stage api ts = Inr ts \<and>
         export api model_name weights_path sz out_path w = serialize api ts out_path w1 \<and>
         (\<forall>g. \<exists>g'. optimize_stage api g = Inr g')"
proof -
  from assms(4) have o: "optimize_stage api ts = Inr ts"
    by (auto simp: optimize_stage_def)
  have e: "export api model_name weights_path sz out_path w = serialize api ts out_path w1"
    by (simp add: export_def assms(1-3) o Let_def)
  have t: "\<forall>g. \<exists>g'. optimize_stage api g = Inr g'"
    using optimize_stage_Inr [of api] by (rule allI)
  from o e t show ?thesis by (intro conjI)
qed

theorem optimizer_failure_falls_back_witness:
  "export demo_api_no_optimizer ''midas_small'' None 256 ''test.ptl'' world0 =
     (Inr (), \<lparr>stdout = [''Wrote test.ptl''], stderr = [], files = [(''test.ptl'', [''forward''])]\<rparr>)"
proof -
  have l: "load_midas_model demo_api_no_optimizer ''midas_small'' None world0 =
      (Inr [(''conv.weight'', demo_weight 0)], world0)"
    by (simp add: load_midas_model_def resolve_architecture_def MODEL_KEY_MAP_def str_lower_def
        lower_char_def acquire_network_def demo_api_no_optimizer_def demo_api_def demo_hub_load_def)
  have r: "randn demo_api_no_optimizer [1, 3, 256, 256] =
      Inr \<lparr>dtype = Float32, shape = [1, 3, 256, 256],
            elems = replicate (prod_list [1, 3, 256, 256]) (Fin (1 / 2))\<rparr>"
    by (simp add: demo_api_no_optimizer_def demo_api_def demo_randn_def)
  have j: "jit_trace demo_api_no_optimizer m ex False False = Inr [''forward'']" for m ex
    by (simp add: demo_api_no_optimizer_def demo_api_def)
  have f: "(\<exists>e. import_optimize_for_mobile demo_api_no_optimizer = Inl e) \<or>
         (\<exists>opt e. import_optimize_for_mobile demo_api_no_optimizer = Inr opt \<and> opt [''forward''] = Inl e)"
    by (simp add: demo_api_no_optimizer_def)
  have s: "serialize demo_api_no_optimizer [''forward''] ''test.ptl'' world0 =
     (Inr (), \<lparr>stdout = [''Wrote test.ptl''], stderr = [], files = [(''test.ptl'', [''forward''])]\<rparr>)"
    by (simp add: serialize_def demo_api_no_optimizer_def demo_api_def print_out_def world0_def)
  from optimizer_failure_falls_back [OF l r j f, of "''test.ptl''"] s
  show ?thesis by simp
qed

text \<open>
  C9. \<^verbatim>\<open>torch.load\<close> is called before the \<^verbatim>\<open>try\<close>: when it raises, the
  exception leaves \<open>load_midas_model\<close> and \<open>export\<close> with nothing printed and nothing
  written. Only an exception of \<^verbatim>\<open>load_state_dict\<close> becomes the warning.
\<close>

theorem weights_read_failure_propagates:
  assumes "map_of MODEL_KEY_MAP (str_lower model_key) = Some hub_key"
    and "hub_load api ''intel-isl/MiDaS'' hub_key True False = Inr n"
    and "path \<noteq> []"
  shows "(\<forall>e. torch_load api path ''cpu'' = Inl e \<longrightarrow>
            acquire_network api hub_key (Some path) w = (Inl (Raised e), w) \<and>
            load_midas_model api model_key (Some path) w = (Inl (Raised e), w) \<and>
            export api model_key (Some path) sz out_path w = (Inl (Raised e), w)) \<and>
         (\<forall>sd e n'. torch_load api path ''cpu'' = Inr sd \<and>
            load_state_dict api n (unwrap_state_dict sd) False = (Some e, n') \<longrightarrow>
            load_midas_model api model_key (Some path) w =
              (Inr (net_eval api n'),
               print_err (''Warning: load_state_dict(strict=False) failed: ''
                          @ str_of_exception e) w))"
proof (intro conjI allI impI)
  have r: "resolve_architecture model_key w = (Inr hub_key, w)"
    by (simp add: resolve_architecture_def assms(1))
  have l: "load_midas_model api model_key (Some path) w =
      acquire_network api hub_key (Some path) w"
    by (simp add: load_midas_model_def r)
  {
    fix e
    assume t: "torch_load api path ''cpu'' = Inl e"
    show a: "acquire_network api hub_key (Some path) w = (Inl (Raised e), w)"
      by (simp add: acquire_network_def assms(2,3) t)
    show "load_midas_model api model_key (Some path) w = (Inl (Raised e), w)"
      by (simp add: l a)
    then show "export api model_key (Some path) sz out_path w = (Inl (Raised e), w)"
      by (simp add: export_def)
  }
  {
    fix sd e n'
    assume "torch_load api path ''cpu'' = Inr sd \<and>
            load_state_dict api n (unwrap_state_dict sd) False = (Some e, n')"
    then show "load_midas_model api model_key (Some path) w =
              (Inr (net_eval api n'),
               print_err (''Warning: load_state_dict(strict=False) failed: ''
                          @ str_of_exception e) w)"
      by (simp add: l acquire_network_def assms(2,3))
  }
qed

theorem weights_read_failure_propagates_witness:
  "export demo_api ''midas_small'' (Some ''missing.pt'') 256 ''test.ptl'' world0 =
     (Inl (Raised (Exception ''No such file or directory'')), world0) \<and>
   exit_status (fst (export demo_api ''midas_small'' (Some ''missing.pt'') 256 ''test.ptl'' world0)) = 1 \<and>
   load_midas_model demo_api ''midas_small'' (Some ''module.pt'') world0 =
     (Inr [(''conv.weight'', demo_weight 0)],
      print_err ''Warning: load_state_dict(strict=False) failed: Expected state_dict to be dict-like'' world0)"
proof -
  have k: "map_of MODEL_KEY_MAP (str_lower ''midas_small'') = Some ''MiDaS_small''"
    by (simp add: MODEL_KEY_MAP_def str_lower_def lower_char_def)
  have h: "hub_load demo_api ''intel-isl/MiDaS'' ''MiDaS_small'' True False
      = Inr [(''conv.weight'', demo_weight 0)]"
    by (simp add: demo_api_def demo_hub_load_def MODEL_KEY_MAP_def)
  have t1: "torch_load demo_api ''missing.pt'' ''cpu'' = Inl (Exception ''No such file or directory'')"
    by (simp add: demo_api_def demo_torch_load_def)
  have t2: "torch_load demo_api ''module.pt'' ''cpu'' = Inr (PyOther ''MidasNet'') \<and>
      load_state_dict demo_api [(''conv.weight'', demo_weight 0)]
      (unwrap_state_dict (PyOther ''MidasNet'')) False
      = (Some (Exception ''Expected state_dict to be dict-like''), [(''conv.weight'', demo_weight 0)])"
    by (simp add: demo_api_def demo_torch_load_def demo_load_state_dict_def)
  have e: "net_eval demo_api = (\<lambda>n. n)" by (simp add: demo_api_def)
  from weights_read_failure_propagates [OF k h, of "''missing.pt''" world0 256 "''test.ptl''"] t1
  have a: "export demo_api ''midas_small'' (Some ''missing.pt'') 256 ''test.ptl'' world0 =
     (Inl (Raised (Exception ''No such file or directory'')), world0)"
    by simp
  from weights_read_failure_propagates [OF k h, of "''module.pt''" world0 256 "''test.ptl''"] t2
  have b: "load_midas_model demo_api ''midas_small'' (Some ''module.pt'') world0 =
     (Inr [(''conv.weight'', demo_weight 0)],
      print_err ''Warning: load_state_dict(strict=False) failed: Expected state_dict to be dict-like'' world0)"
    unfolding e by simp
  from a b show ?thesis by simp
qed

text \<open>
  C10. The guard ends the script with \<^verbatim>\<open>sys.exit(1)\<close> exactly when numpy and
  \<^verbatim>\<open>Version\<close> are imported, both versions are parsed and the comparison holds. In
  every other case (an import or a parse raises, or the version is below 2.0.0) it does
  nothing, prints nothing, and the script goes on with the kornia import and the export.
\<close>

theorem numpy_guard_best_effort:
  "numpy_guard env w =
     (if \<exists>np_version Version a b.
            import_numpy env = Inr np_version \<and> import_Version env = Inr Version \<and>
            Version np_version = Inr a \<and> Version ''2.0.0'' = Inr b \<and> version_ge env a b
      then (Inl (SystemExit 1),
            print_err (''ERROR: numpy>=2 detected. Install numpy<2 ''
                       @ ''(e.g., uv pip install '' @ repr_str ''numpy<2'' @ '').'') w)
      else (Inr (), w)) \<and>
   exit_status (fst (numpy_guard env w)) =
     (if \<exists>np_version Version a b.
            import_numpy env = Inr np_version \<and> import_Version env = Inr Version \<and>
            Version np_version = Inr a \<and> Version ''2.0.0'' = Inr b \<and> version_ge env a b
      then 1 else 0) \<and>
   script env api model_name weights_path sz out_path w =
     (if \<exists>np_version Version a b.
            import_numpy env = Inr np_version \<and> import_Version env = Inr Version \<and>
            Version np_version = Inr a \<and> Version ''2.0.0'' = Inr b \<and> version_ge env a b
      then (Inl (SystemExit 1),
            print_err (''ERROR: numpy>=2 detected. Install numpy<2 ''
                       @ ''(e.g., uv pip install '' @ repr_str ''numpy<2'' @ '').'') w)
      else (case kornia_guard env w of
              (Inl e, w2) \<Rightarrow> (Inl e, w2)
            | (Inr u, w2) \<Rightarrow> export api model_name weights_path sz out_path w2))"
proof -
  define c where "c \<longleftrightarrow> (\<exists>np_version Version a b.
            import_numpy env = Inr np_version \<and> import_Version env = Inr Version \<and>
            Version np_version = Inr a \<and> Version ''2.0.0'' = Inr b \<and> version_ge env a b)"
  define M where "M = print_err (''ERROR: numpy>=2 detected. Install numpy<2 ''
                       @ ''(e.g., uv pip install '' @ repr_str ''numpy<2'' @ '').'') w"
  have g: "numpy_guard env w = (if c then (Inl (SystemExit 1), M) else (Inr (), w))"
    unfolding c_def M_def
    by (auto simp: numpy_guard_def try_except_w_def split: sum.splits)
  have "numpy_guard env w = (if c then (Inl (SystemExit 1), M) else (Inr (), w)) \<and>
    exit_status (fst (numpy_guard env w)) = (if c then 1 else 0) \<and>
    script env api model_name weights_path sz out_path w =
     (if c then (Inl (SystemExit 1), M)
      else (case kornia_guard env w of
              (Inl e, w2) \<Rightarrow> (Inl e, w2)
            | (Inr u, w2) \<Rightarrow> export api model_name weights_path sz out_path w2))"
    by (simp add: script_def g)
  then show ?thesis unfolding c_def M_def .
qed

theorem numpy_guard_best_effort_witness:
  "exit_status (fst (numpy_guard (demo_modules ''2.1.3'' (Inr [2, 1, 3])) world0)) = 1 \<and>
   numpy_guard (demo_modules ''1.26.4'' (Inr [1, 26, 4])) world0 = (Inr (), world0) \<and>
   numpy_guard (demo_modules ''unknown'' (Inl (Exception ''Invalid version: unknown''))) world0
     = (Inr (), world0) \<and>
   numpy_guard ((demo_modules ''2.1.3'' (Inr [2, 1, 3]))
                  \<lparr>import_Version := Inl (Exception ''No module named packaging'')\<rparr>)
      world0 = (Inr (), world0) \<and>
   numpy_guard ((demo_modules ''2.1.3'' (Inr [2, 1, 3]))
                  \<lparr>import_numpy := Inl (Exception ''No module named numpy'')\<rparr>)
      world0 = (Inr (), world0)"
proof -
  note t = numpy_guard_best_effort [where w = world0 and api = demo_api and model_name = "''midas_small''"
      and weights_path = None and sz = 256 and out_path = "''test.ptl''"]
  have 1: "exit_status (fst (numpy_guard (demo_modules ''2.1.3'' (Inr [2, 1, 3])) world0)) = 1"
    using t [of "demo_modules ''2.1.3'' (Inr [2, 1, 3])"] by (simp add: demo_modules_def)
  have 2: "numpy_guard (demo_modules ''1.26.4'' (Inr [1, 26, 4])) world0 = (Inr (), world0)"
    using t [of "demo_modules ''1.26.4'' (Inr [1, 26, 4])"] by (simp add: demo_modules_def)
  have 3: "numpy_guard (demo_modules ''unknown'' (Inl (Exception ''Invalid version: unknown''))) world0
     = (Inr (), world0)"
    using t [of "demo_modules ''unknown'' (Inl (Exception ''Invalid version: unknown''))"]
    by (simp add: demo_modules_def)
  have 4: "numpy_guard ((demo_modules ''2.1.3'' (Inr [2, 1, 3]))
                  \<lparr>import_Version := Inl (Exception ''No module named packaging'')\<rparr>)
      world0 = (Inr (), world0)"
    using t [of "(demo_modules ''2.1.3'' (Inr [2, 1, 3]))\<lparr>import_Version := Inl (Exception ''No module named packaging'')\<rparr>"]
    by (simp add: demo_modules_def)
  have 5: "numpy_guard ((demo_modules ''2.1.3'' (Inr [2, 1, 3]))
                  \<lparr>import_numpy := Inl (Exception ''No module named numpy'')\<rparr>)
      world0 = (Inr (), world0)"
    using t [of "(demo_modules ''2.1.3'' (Inr [2, 1, 3]))\<lparr>import_numpy := Inl (Exception ''No module named numpy'')\<rparr>"]
    by (simp add: demo_modules_def)
  from 1 2 3 4 5 show ?thesis by (intro conjI)
qed

end
